theory Spec2Isabelle
  imports Main "HOL-Library.AList" "HOL-Library.Sublist"
begin

section \<open>JavaScript values\<close>

text \<open>
  Untyped JavaScript objects of the source (\<^verbatim>\<open>object\<close>, \<^verbatim>\<open>any\<close>, the result of
  \<^verbatim>\<open>JSON.parse\<close>) are values of \<open>json\<close>. A number \<open>JNumber m k\<close> stands for the
  decimal \<open>m / 10^k\<close>, so an integer \<open>n\<close> is \<open>JNumber n 0\<close>; rounding to an IEEE double is
  not modelled. An object is its list of properties in insertion order.
\<close>

datatype json =
    JNull
  | JBool bool
  | JNumber int nat
  | JString string
  | JArray "json list"
  | JObject "(string \<times> json) list"

subsection \<open>\<^verbatim>\<open>JSON.parse\<close>\<close>

text \<open>
  \<^verbatim>\<open>JSON.parse\<close> is a builtin of the language, not code of the repository. The functions
  of the repository take it as a parameter (field \<open>JSON_parse\<close> of \<open>env\<close> below); the
  parser \<open>json_parse\<close> of this subsection follows the JSON grammar (ECMA-404) and is the
  instance used at concrete inputs. \<open>None\<close> stands for the \<^verbatim>\<open>SyntaxError\<close> that
  \<^verbatim>\<open>JSON.parse\<close> throws. Strings are byte lists: a \<^verbatim>\<open>\uXXXX\<close> escape is stored as the
  UTF-8 bytes of its code unit.
\<close>

definition is_ws :: "char \<Rightarrow> bool" where
  "is_ws c = (c = CHR '' '' \<or> c = CHR 0x09 \<or> c = CHR 0x0A \<or> c = CHR 0x0D)"

definition is_digit :: "char \<Rightarrow> bool" where
  "is_digit c = (48 \<le> (of_char c :: nat) \<and> (of_char c :: nat) \<le> 57)"

definition digits_val :: "string \<Rightarrow> nat" where
  "digits_val ds = foldl (\<lambda>n c. 10 * n + ((of_char c :: nat) - 48)) 0 ds"

definition hex_val :: "char \<Rightarrow> nat option" where
  "hex_val c =
     (let n = (of_char c :: nat)
      in if 48 \<le> n \<and> n \<le> 57 then Some (n - 48)
         else if 65 \<le> n \<and> n \<le> 70 then Some (n - 55)
         else if 97 \<le> n \<and> n \<le> 102 then Some (n - 87)
         else None)"

definition hex4 :: "char \<Rightarrow> char \<Rightarrow> char \<Rightarrow> char \<Rightarrow> nat option" where
  "hex4 a b c d =
     (case (hex_val a, hex_val b, hex_val c, hex_val d) of
        (Some w, Some x, Some y, Some z) \<Rightarrow> Some (((w * 16 + x) * 16 + y) * 16 + z)
      | _ \<Rightarrow> None)"

definition utf8 :: "nat \<Rightarrow> string" where
  "utf8 n =
     (if n < 128 then [char_of n]
      else if n < 2048 then [char_of (192 + n div 64), char_of (128 + n mod 64)]
      else [char_of (224 + n div 4096), char_of (128 + (n div 64) mod 64),
            char_of (128 + n mod 64)])"

definition unescape_char :: "char \<Rightarrow> char option" where
  "unescape_char e =
     (if e = CHR 0x22 \<or> e = CHR 0x5C \<or> e = CHR ''/'' then Some e
      else if e = CHR ''b'' then Some (CHR 0x08)
      else if e = CHR ''f'' then Some (CHR 0x0C)
      else if e = CHR ''n'' then Some (CHR 0x0A)
      else if e = CHR ''r'' then Some (CHR 0x0D)
      else if e = CHR ''t'' then Some (CHR 0x09)
      else None)"

definition prepend :: "string \<Rightarrow> (string \<times> string) option \<Rightarrow> (string \<times> string) option" where
  "prepend p r = map_option (\<lambda>(s, rest). (p @ s, rest)) r"

text \<open>\<open>lex_string s\<close> reads a string literal whose opening quote has been consumed.\<close>

fun lex_string :: "string \<Rightarrow> (string \<times> string) option" where
  "lex_string [] = None"
| "lex_string (c # cs) =
     (if c = CHR 0x22 then Some ([], cs)
      else if c = CHR 0x5C then
        (case cs of
           [] \<Rightarrow> None
         | e # cs' \<Rightarrow>
             if e = CHR ''u'' then
               (case cs' of
                  a # b # c' # d # r \<Rightarrow>
                    (case hex4 a b c' d of
                       Some n \<Rightarrow> prepend (utf8 n) (lex_string r)
                     | None \<Rightarrow> None)
                | _ \<Rightarrow> None)
             else
               (case unescape_char e of
                  Some x \<Rightarrow> prepend [x] (lex_string cs')
                | None \<Rightarrow> None))
      else if (of_char c :: nat) < 32 then None
      else prepend [c] (lex_string cs))"

fun reduce_decimal :: "int \<Rightarrow> nat \<Rightarrow> json" where
  "reduce_decimal m 0 = JNumber m 0"
| "reduce_decimal m (Suc k) =
     (if m mod 10 = 0 then reduce_decimal (m div 10) k else JNumber m (Suc k))"

definition decimal :: "int \<Rightarrow> int \<Rightarrow> json" where
  "decimal m scale =
     (if scale \<le> 0 then JNumber (m * 10 ^ nat (- scale)) 0 else reduce_decimal m (nat scale))"

definition lex_sign :: "string \<Rightarrow> bool \<times> string" where
  "lex_sign s =
     (case s of
        [] \<Rightarrow> (False, s)
      | c # r \<Rightarrow> if c = CHR ''-'' then (True, r) else (False, s))"

definition lex_fraction :: "string \<Rightarrow> (string \<times> string) option" where
  "lex_fraction s =
     (case s of
        [] \<Rightarrow> Some ([], s)
      | c # r \<Rightarrow>
          if c = CHR ''.'' then
            (if takeWhile is_digit r = [] then None
             else Some (takeWhile is_digit r, dropWhile is_digit r))
          else Some ([], s))"

definition lex_exponent :: "string \<Rightarrow> (int \<times> string) option" where
  "lex_exponent s =
     (case s of
        [] \<Rightarrow> Some (0, s)
      | c # r \<Rightarrow>
          if c = CHR ''e'' \<or> c = CHR ''E'' then
            (let (neg, r') =
               (case r of
                  [] \<Rightarrow> (False, r)
                | g # r'' \<Rightarrow>
                    if g = CHR ''-'' then (True, r'')
                    else if g = CHR ''+'' then (False, r'')
                    else (False, r))
             in if takeWhile is_digit r' = [] then None
                else Some ((if neg then - int (digits_val (takeWhile is_digit r'))
                            else int (digits_val (takeWhile is_digit r'))),
                           dropWhile is_digit r'))
          else Some (0, s))"

definition lex_number :: "string \<Rightarrow> (json \<times> string) option" where
  "lex_number s =
     (let (neg, s1) = lex_sign s;
          ip = takeWhile is_digit s1
      in if ip = [] \<or> (1 < length ip \<and> hd ip = CHR ''0'') then None
         else
           (case lex_fraction (dropWhile is_digit s1) of
              None \<Rightarrow> None
            | Some (fp, s3) \<Rightarrow>
                (case lex_exponent s3 of
                   None \<Rightarrow> None
                 | Some (ex, s4) \<Rightarrow>
                     Some (decimal ((if neg then - 1 else 1) * int (digits_val (ip @ fp)))
                                   (int (length fp) - ex),
                           s4))))"

definition strip_prefix :: "string \<Rightarrow> string \<Rightarrow> string option" where
  "strip_prefix p s = (if take (length p) s = p then Some (drop (length p) s) else None)"

datatype token = LBrace | RBrace | LBracket | RBracket | Colon | Comma | Scalar json

definition lex_literal :: "string \<Rightarrow> (json \<times> string) option" where
  "lex_literal s =
     (case strip_prefix ''true'' s of
        Some r \<Rightarrow> Some (JBool True, r)
      | None \<Rightarrow>
          (case strip_prefix ''false'' s of
             Some r \<Rightarrow> Some (JBool False, r)
           | None \<Rightarrow>
               (case strip_prefix ''null'' s of
                  Some r \<Rightarrow> Some (JNull, r)
                | None \<Rightarrow> None)))"

definition scalar_token :: "(json \<times> string) option \<Rightarrow> (token \<times> string) option" where
  "scalar_token x = map_option (\<lambda>(v, r). (Scalar v, r)) x"

definition string_token :: "(string \<times> string) option \<Rightarrow> (token \<times> string) option" where
  "string_token x = map_option (\<lambda>(s, r). (Scalar (JString s), r)) x"

text \<open>One token from the front of a non-empty input that does not start with white space.\<close>

definition next_token :: "char \<Rightarrow> string \<Rightarrow> (token \<times> string) option" where
  "next_token c cs =
     (if c = CHR ''{'' then Some (LBrace, cs)
      else if c = CHR ''}'' then Some (RBrace, cs)
      else if c = CHR ''['' then Some (LBracket, cs)
      else if c = CHR '']'' then Some (RBracket, cs)
      else if c = CHR '':'' then Some (Colon, cs)
      else if c = CHR '','' then Some (Comma, cs)
      else if c = CHR 0x22 then string_token (lex_string cs)
      else if c = CHR ''-'' \<or> is_digit c then scalar_token (lex_number (c # cs))
      else scalar_token (lex_literal (c # cs)))"

lemma prepend_Some:
  "prepend p r = Some (s, rest) \<Longrightarrow> \<exists>s'. r = Some (s', rest)"
  by (cases r) (auto simp: prepend_def)

lemma lex_string_shorter:
  "lex_string cs = Some (s, r) \<Longrightarrow> length r < length cs"
proof (induction cs arbitrary: s r rule: lex_string.induct)
  case 1
  then show ?case by simp
next
  case (2 c cs)
  show ?case
  proof (cases "c = CHR 0x22")
    case True
    with "2.prems" show ?thesis by simp
  next
    case quote: False
    show ?thesis
    proof (cases "c = CHR 0x5C")
      case False
      with quote "2.prems" obtain s' where "lex_string cs = Some (s', r)"
        by (auto split: if_splits dest: prepend_Some)
      with "2.IH"(3) [OF quote False] quote False "2.prems" show ?thesis
        by (fastforce split: if_splits)
    next
      case True
      with quote "2.prems" obtain e cs' where cs: "cs = e # cs'"
        by (cases cs) auto
      show ?thesis
      proof (cases "e = CHR ''u''")
        case u: True
        with quote True cs "2.prems" obtain a b c' d r' n where
          cs': "cs' = a # b # c' # d # r'" and h: "hex4 a b c' d = Some n"
          and p: "prepend (utf8 n) (lex_string r') = Some (s, r)"
          by (auto split: list.splits option.splits)
        from p obtain s' where "lex_string r' = Some (s', r)"
          by (auto dest: prepend_Some)
        with "2.IH"(1) [OF quote True cs u cs' refl refl refl h] cs cs'
        show ?thesis by fastforce
      next
        case nu: False
        with quote True cs "2.prems" obtain x where
          x: "unescape_char e = Some x" and p: "prepend [x] (lex_string cs') = Some (s, r)"
          by (auto split: option.splits)
        from p obtain s' where "lex_string cs' = Some (s', r)"
          by (auto dest: prepend_Some)
        with "2.IH"(2) [OF quote True cs nu x] cs show ?thesis by fastforce
      qed
    qed
  qed
qed

lemma lex_fraction_shorter:
  assumes "lex_fraction s = Some (fp, r)"
  shows "length r \<le> length s"
proof (cases s)
  case Nil
  with assms show ?thesis by (simp add: lex_fraction_def)
next
  case (Cons c cs)
  with assms have "r = s \<or> r = dropWhile is_digit cs"
    by (auto simp: lex_fraction_def split: if_splits)
  with Cons show ?thesis
    using length_dropWhile_le [of is_digit cs] by auto
qed

lemma lex_exponent_shorter:
  assumes "lex_exponent s = Some (ex, r)"
  shows "length r \<le> length s"
proof (cases s)
  case Nil
  with assms show ?thesis by (simp add: lex_exponent_def)
next
  case (Cons c cs)
  have "r = s \<or> r = dropWhile is_digit cs \<or> r = dropWhile is_digit (tl cs)"
  proof (cases cs)
    case Nil
    with assms \<open>s = c # cs\<close> show ?thesis
      by (simp add: lex_exponent_def split: if_splits)
  next
    case (Cons g r'')
    with assms \<open>s = c # cs\<close> show ?thesis
      by (simp add: lex_exponent_def split: if_splits)
  qed
  moreover have "length (dropWhile is_digit (tl cs)) \<le> length cs"
    using length_dropWhile_le [of is_digit "tl cs"] by (cases cs) auto
  ultimately show ?thesis
    using Cons length_dropWhile_le [of is_digit cs] by auto
qed

lemma dropWhile_shorter:
  assumes "takeWhile P xs \<noteq> []"
  shows "length (dropWhile P xs) < length xs"
proof (cases xs)
  case Nil
  with assms show ?thesis by simp
next
  case (Cons x xs')
  with assms have "dropWhile P xs = dropWhile P xs'"
    by (simp split: if_splits)
  with Cons show ?thesis
    using length_dropWhile_le [of P xs'] by simp
qed

lemma lex_sign_shorter:
  "lex_sign s = (neg, s1) \<Longrightarrow> length s1 \<le> length s"
  by (cases s) (auto simp: lex_sign_def split: if_splits)

lemma lex_number_shorter:
  assumes "lex_number s = Some (v, r)"
  shows "length r < length s"
proof -
  obtain neg s1 where sg: "lex_sign s = (neg, s1)"
    by (cases "lex_sign s") auto
  from assms sg have ip: "takeWhile is_digit s1 \<noteq> []"
    by (simp add: lex_number_def Let_def split: if_splits)
  from assms sg ip obtain fp s3 where
    f: "lex_fraction (dropWhile is_digit s1) = Some (fp, s3)"
    by (cases "lex_fraction (dropWhile is_digit s1)")
       (auto simp: lex_number_def Let_def split: if_splits)
  from assms sg ip f obtain ex where e: "lex_exponent s3 = Some (ex, r)"
    by (cases "lex_exponent s3") (auto simp: lex_number_def Let_def split: if_splits)
  have "length r \<le> length s3"
    using e by (rule lex_exponent_shorter)
  also have "\<dots> \<le> length (dropWhile is_digit s1)"
    using f by (rule lex_fraction_shorter)
  also have "\<dots> < length s1"
    using ip by (rule dropWhile_shorter)
  also have "\<dots> \<le> length s"
    using sg by (rule lex_sign_shorter)
  finally show ?thesis .
qed

lemma strip_prefix_shorter:
  "strip_prefix p s = Some r \<Longrightarrow> p \<noteq> [] \<Longrightarrow> length r < length s"
  by (cases s; cases p) (auto simp: strip_prefix_def split: if_splits)

lemma lex_literal_shorter:
  assumes "lex_literal s = Some (v, r)"
  shows "length r < length s"
proof -
  from assms have
    "strip_prefix ''true'' s = Some r \<or> strip_prefix ''false'' s = Some r
      \<or> strip_prefix ''null'' s = Some r"
    by (simp add: lex_literal_def split: option.splits)
  then show ?thesis
    using strip_prefix_shorter [of "''true''" s r] strip_prefix_shorter [of "''false''" s r]
      strip_prefix_shorter [of "''null''" s r]
    by auto
qed

lemma scalar_token_Some:
  "scalar_token x = Some (t, r) \<Longrightarrow> \<exists>v. x = Some (v, r)"
  by (cases x) (auto simp: scalar_token_def)

lemma string_token_Some:
  "string_token x = Some (t, r) \<Longrightarrow> \<exists>v. x = Some (v, r)"
  by (cases x) (auto simp: string_token_def)

lemma next_token_cases:
  assumes "next_token c cs = Some (t, r)"
  shows "r = cs \<or> string_token (lex_string cs) = Some (t, r)
    \<or> scalar_token (lex_number (c # cs)) = Some (t, r)
    \<or> scalar_token (lex_literal (c # cs)) = Some (t, r)"
  using assms unfolding next_token_def by (simp split: if_splits)

lemma next_token_shorter:
  assumes "next_token c cs = Some (t, r)"
  shows "length r < length (c # cs)"
proof -
  from next_token_cases [OF assms]
  consider "r = cs" | s where "lex_string cs = Some (s, r)"
    | v where "lex_number (c # cs) = Some (v, r)"
    | v where "lex_literal (c # cs) = Some (v, r)"
    using scalar_token_Some string_token_Some by blast
  then show ?thesis
  proof cases
    case 1
    then show ?thesis by simp
  next
    case 2
    from lex_string_shorter [OF this] show ?thesis by simp
  next
    case 3
    from lex_number_shorter [OF this] show ?thesis .
  next
    case 4
    from lex_literal_shorter [OF this] show ?thesis .
  qed
qed

function tokenize :: "string \<Rightarrow> token list option" where
  "tokenize [] = Some []"
| "tokenize (c # cs) =
     (if is_ws c then tokenize cs
      else
        (case next_token c cs of
           None \<Rightarrow> None
         | Some (t, r) \<Rightarrow> map_option ((#) t) (tokenize r)))"
  by pat_completeness auto
termination
  by (relation "measure length") (auto dest: next_token_shorter)

text \<open>
  The token list is parsed by a pushdown automaton: the stack holds the arrays and
  objects still open, \<open>expect\<close> says which tokens may come next. A property assigned twice
  keeps its first position and its last value, as a JavaScript object does.
\<close>

datatype frame =
    FArray "json list"
  | FObject "(string \<times> json) list"
  | FMember "(string \<times> json) list" string

datatype expect = Value | ValueOrEnd | Key | KeyOrEnd | ColonNext | CommaOrEnd | Finished json

fun push_value :: "json \<Rightarrow> frame list \<Rightarrow> (frame list \<times> expect) option" where
  "push_value v [] = Some ([], Finished v)"
| "push_value v (FArray xs # st) = Some (FArray (xs @ [v]) # st, CommaOrEnd)"
| "push_value v (FMember kvs k # st) = Some (FObject (AList.update k v kvs) # st, CommaOrEnd)"
| "push_value v (FObject kvs # st) = None"

fun close_array :: "frame list \<Rightarrow> (frame list \<times> expect) option" where
  "close_array (FArray xs # st) = push_value (JArray xs) st"
| "close_array _ = None"

fun close_object :: "frame list \<Rightarrow> (frame list \<times> expect) option" where
  "close_object (FObject kvs # st) = push_value (JObject kvs) st"
| "close_object _ = None"

fun open_member :: "string \<Rightarrow> frame list \<Rightarrow> (frame list \<times> expect) option" where
  "open_member k (FObject kvs # st) = Some (FMember kvs k # st, ColonNext)"
| "open_member k _ = None"

fun after_comma :: "frame list \<Rightarrow> (frame list \<times> expect) option" where
  "after_comma (FArray xs # st) = Some (FArray xs # st, Value)"
| "after_comma (FObject kvs # st) = Some (FObject kvs # st, Key)"
| "after_comma _ = None"

fun parse_step :: "frame list \<times> expect \<Rightarrow> token \<Rightarrow> (frame list \<times> expect) option" where
  "parse_step (st, Value) (Scalar v) = push_value v st"
| "parse_step (st, Value) LBracket = Some (FArray [] # st, ValueOrEnd)"
| "parse_step (st, Value) LBrace = Some (FObject [] # st, KeyOrEnd)"
| "parse_step (st, ValueOrEnd) (Scalar v) = push_value v st"
| "parse_step (st, ValueOrEnd) LBracket = Some (FArray [] # st, ValueOrEnd)"
| "parse_step (st, ValueOrEnd) LBrace = Some (FObject [] # st, KeyOrEnd)"
| "parse_step (st, ValueOrEnd) RBracket = close_array st"
| "parse_step (st, Key) (Scalar (JString k)) = open_member k st"
| "parse_step (st, KeyOrEnd) (Scalar (JString k)) = open_member k st"
| "parse_step (st, KeyOrEnd) RBrace = close_object st"
| "parse_step (st, ColonNext) Colon = Some (st, Value)"
| "parse_step (st, CommaOrEnd) Comma = after_comma st"
| "parse_step (st, CommaOrEnd) RBracket = close_array st"
| "parse_step (st, CommaOrEnd) RBrace = close_object st"
| "parse_step _ _ = None"

fun parse_tokens :: "frame list \<times> expect \<Rightarrow> token list \<Rightarrow> (frame list \<times> expect) option" where
  "parse_tokens s [] = Some s"
| "parse_tokens s (t # ts) =
     (case parse_step s t of None \<Rightarrow> None | Some s' \<Rightarrow> parse_tokens s' ts)"

definition json_parse :: "string \<Rightarrow> json option" where
  "json_parse s =
     (case tokenize s of
        None \<Rightarrow> None
      | Some ts \<Rightarrow>
          (case parse_tokens ([], Value) ts of
             Some ([], Finished v) \<Rightarrow> Some v
           | _ \<Rightarrow> None))"

section \<open>Wire data\<close>

text \<open>
  Modelled from the spec: \<^verbatim>\<open>IMessageReplyPayload\<close> and \<^verbatim>\<open>IMessageForwardPayload\<close> are
  declared in \<^verbatim>\<open>shared/message-reply\<close> and \<^verbatim>\<open>shared/message-forward\<close>, which are not
  among the sources. The specification describes both as embedded message fragments with
  an id, a text, peer and sender ids, timestamps and attachments; a forwarded fragment may
  carry forwarded fragments of its own.
\<close>

record reply_payload =
  reply_id :: int
  reply_conversation_message_id :: int
  reply_peer_id :: int
  reply_from_id :: int
  reply_text :: "string option"
  reply_date :: int
  reply_attachments :: "json list"

datatype forward_payload =
  ForwardPayload (fwd_from_id: int) (fwd_text: "string option") (fwd_date: int)
    (fwd_attachments: "json list") (fwd_fwd_messages: "forward_payload list")

text \<open>
  \<^verbatim>\<open>IMessageContextPayload\<close> of \<^verbatim>\<open>message.ts\<close>. An optional property is an \<open>option\<close>
  (\<open>None\<close> is \<^verbatim>\<open>undefined\<close>); \<^verbatim>\<open>number\<close> is \<open>int\<close>; the string enumerations are
  strings, as they are at run time. Fields whose names are taken by a member of the view
  or by HOL carry a suffix: \<open>id_m\<close>, \<open>text_m\<close>, \<open>geo_m\<close>, \<open>payload_m\<close>, \<open>attachments_m\<close>.
\<close>

record action_payload =
  type_a :: string
  member_id :: int
  text_a :: "string option"
  email :: "string option"
  photo :: "json option"

record message_payload =
  id_m :: int
  conversation_message_id :: int
  out :: int
  peer_id :: int
  from_id :: int
  text_m :: "string option"
  date :: int
  update_time :: "int option"
  random_id :: int
  ref :: "string option"
  ref_source :: "string option"
  attachments_m :: "json list"
  important :: bool
  geo_m :: "json option"
  payload_m :: "string option"
  reply_message :: "reply_payload option"
  fwd_messages :: "forward_payload list option"
  action :: "action_payload option"

record client_info_payload =
  button_actions :: "string list"
  keyboard :: bool
  inline_keyboard :: bool
  carousel :: bool
  lang_id :: int

record IMessageContextPayload =
  message_p :: message_payload
  client_info :: client_info_payload

text \<open>
  The argument of \<^verbatim>\<open>applyPayload\<close> has the union type
  \<^verbatim>\<open>IMessageContextPayload | IMessageContextPayload['message']\<close>; the test
  \<^verbatim>\<open>'client_info' in payload\<close> tells the two apart.
\<close>

datatype payload_arg = Enveloped IMessageContextPayload | Bare message_payload

section \<open>Collaborators outside the sources\<close>

text \<open>
  The enumerations \<^verbatim>\<open>MessageSource\<close> and \<^verbatim>\<open>UpdateSource\<close> of \<^verbatim>\<open>utils/constants\<close>, with the
  members that \<^verbatim>\<open>message.ts\<close> names; \<open>OTHER\<close> is any other value \<^verbatim>\<open>getPeerType\<close> may return.
  An \<open>error\<close> is what a function throws or a promise rejects with: the \<^verbatim>\<open>VKError\<close> of
  \<^verbatim>\<open>message.ts\<close> with its message and code, the \<^verbatim>\<open>SyntaxError\<close> of \<^verbatim>\<open>JSON.parse\<close>, a
  \<^verbatim>\<open>TypeError\<close> of the language, or the rejection of a remote call.
\<close>

datatype MessageSource = USER | CHAT | GROUP | OTHER string

datatype UpdateSource = POLLING | WEBHOOK

datatype error =
    VKError (err_message: string) (err_code: string)
  | SyntaxError
  | TypeError
  | RemoteError string

text \<open>
  An attachment object (\<^verbatim>\<open>Attachment | ExternalAttachment\<close>): its type tag, whether it can
  be attached again by reference, and the raw object it was built from.
\<close>

record Attachment =
  type_att :: string
  canBeAttached :: bool
  raw :: json

text \<open>
  The helpers and constants that \<^verbatim>\<open>message.ts\<close> imports from \<^verbatim>\<open>utils/helpers\<close>,
  \<^verbatim>\<open>utils/constants\<close>, \<^verbatim>\<open>attachments/helpers\<close> and \<^verbatim>\<open>updates/transform-message\<close> are not
  among the sources, and \<^verbatim>\<open>JSON.parse\<close> is a builtin. The functions of \<^verbatim>\<open>message.ts\<close>
  take them as the parameter \<open>env\<close>; every theorem holds for any value of it.
  \<open>JSON_parse s = None\<close> stands for \<^verbatim>\<open>JSON.parse\<close> throwing its \<^verbatim>\<open>SyntaxError\<close>.
\<close>

record env =
  unescapeHTML :: "string \<Rightarrow> string"
  transformAttachments :: "json list \<Rightarrow> Attachment list"
  transformMessage :: "json \<Rightarrow> message_payload"
  getPeerType :: "int \<Rightarrow> MessageSource"
  CHAT_PEER :: int
  JSON_parse :: "string \<Rightarrow> json option"

text \<open>
  Modelled from the spec: the classes \<^verbatim>\<open>MessageReply\<close>, \<^verbatim>\<open>MessageForward\<close>,
  \<^verbatim>\<open>MessageForwardsCollection\<close> and the mixin \<^verbatim>\<open>Attachmentable\<close> are not among the
  sources. By sections 4.2 to 4.4 of the specification a reply view wraps one fragment and
  exposes the attachments built from it; the forward chain is the ordered sequence of such
  wrappers; \<open>get(kind)\<close> filters by tag equality, keeps the original order and returns
  everything when no kind is given; \<open>has(kind)\<close> says whether some attachment matches, or
  whether there is any when no kind is given; the chain's \<open>get\<close> and \<open>has\<close> go over every
  element's own attachments in chain order and do not descend into nested forwards.
\<close>

record MessageReply =
  payload_r :: reply_payload
  attachments_r :: "Attachment list"

record MessageForward =
  payload_f :: forward_payload
  attachments_f :: "Attachment list"

type_synonym MessageForwardsCollection = "MessageForward list"

definition new_MessageReply :: "env \<Rightarrow> reply_payload \<Rightarrow> MessageReply" where
  "new_MessageReply e p =
     \<lparr>payload_r = p, attachments_r = transformAttachments e (reply_attachments p)\<rparr>"

definition new_MessageForward :: "env \<Rightarrow> forward_payload \<Rightarrow> MessageForward" where
  "new_MessageForward e p =
     \<lparr>payload_f = p, attachments_f = transformAttachments e (fwd_attachments p)\<rparr>"

definition getAttachments :: "string option \<Rightarrow> Attachment list \<Rightarrow> Attachment list" where
  "getAttachments kind xs =
     (case kind of None \<Rightarrow> xs | Some k \<Rightarrow> filter (\<lambda>a. type_att a = k) xs)"

definition hasAttachments :: "string option \<Rightarrow> Attachment list \<Rightarrow> bool" where
  "hasAttachments kind xs = (getAttachments kind xs \<noteq> [])"

definition getAttachments_forwards ::
  "string option \<Rightarrow> MessageForwardsCollection \<Rightarrow> Attachment list" where
  "getAttachments_forwards kind fs = concat (map (\<lambda>f. getAttachments kind (attachments_f f)) fs)"

definition hasAttachments_forwards :: "string option \<Rightarrow> MessageForwardsCollection \<Rightarrow> bool" where
  "hasAttachments_forwards kind fs = (getAttachments_forwards kind fs \<noteq> [])"

section \<open>The class \<^verbatim>\<open>MessageContext\<close>\<close>

text \<open>
  The fields of a view. \<open>filled\<close> is \<^verbatim>\<open>$filled\<close>, \<open>match\<close> is \<^verbatim>\<open>$match\<close>, \<open>text_c\<close> is the
  public field \<^verbatim>\<open>text\<close>, \<open>groupId\<close> is \<^verbatim>\<open>$groupId\<close>; the fields \<open>k...\<close> are the
  symbol-keyed ones. The clients \<^verbatim>\<open>api\<close> and \<^verbatim>\<open>upload\<close> are passed to each operation.
\<close>

record MessageContext =
  payload :: IMessageContextPayload
  text_c :: "string option"
  filled :: bool
  kForwards :: MessageForwardsCollection
  kReplyMessage :: "MessageReply option"
  kAttachments :: "Attachment list"
  kMessagePayload :: "json option"
  match :: "string list option"
  subTypes :: "string list"
  groupId :: "int option"
  state :: json

text \<open>\<^verbatim>\<open>Boolean(s)\<close> and the condition \<^verbatim>\<open>s ? ... : ...\<close> for \<^verbatim>\<open>s: string | undefined\<close>.\<close>

definition truthy :: "string option \<Rightarrow> bool" where
  "truthy s = (case s of None \<Rightarrow> False | Some t \<Rightarrow> t \<noteq> [])"

text \<open>\<^verbatim>\<open>Boolean(v)\<close> for a value \<open>v\<close> that is not \<^verbatim>\<open>undefined\<close>.\<close>

fun js_truthy :: "json \<Rightarrow> bool" where
  "js_truthy JNull = False"
| "js_truthy (JBool b) = b"
| "js_truthy (JNumber m k) = (m \<noteq> 0)"
| "js_truthy (JString s) = (s \<noteq> [])"
| "js_truthy (JArray xs) = True"
| "js_truthy (JObject kvs) = True"

definition default_client_info :: client_info_payload where
  "default_client_info =
     \<lparr>button_actions = [''text''], keyboard = True, inline_keyboard = False,
      carousel = False, lang_id = 0\<rparr>"

text \<open>Lines 857 to 874: the polyfill for every event except \<^verbatim>\<open>new_message\<close>.\<close>

definition envelope_of :: "payload_arg \<Rightarrow> IMessageContextPayload" where
  "envelope_of a =
     (case a of
        Enveloped p \<Rightarrow> p
      | Bare m \<Rightarrow> \<lparr>message_p = m, client_info = default_client_info\<rparr>)"

definition message :: "MessageContext \<Rightarrow> message_payload" where
  "message c = message_p (payload c)"

text \<open>
  \<^verbatim>\<open>applyPayload\<close> assigns the fields one after the other and ends with \<^verbatim>\<open>JSON.parse\<close>,
  which may throw; the view that is returned beside the outcome is the view as the
  assignments before the throw left it.
\<close>

definition applyPayload ::
  "env \<Rightarrow> payload_arg \<Rightarrow> MessageContext \<Rightarrow> (error + unit) \<times> MessageContext" where
  "applyPayload e a c =
     (let p = envelope_of a;
          c1 = c\<lparr>payload := p\<rparr>;
          c2 = c1\<lparr>text_c := (case text_m (message_p p) of
                               None \<Rightarrow> None
                             | Some t \<Rightarrow> if t \<noteq> [] then Some (unescapeHTML e t) else None)\<rparr>;
          m = message c2;
          c3 = c2\<lparr>kAttachments := transformAttachments e (attachments_m m)\<rparr>;
          c4 = (case reply_message m of
                  Some r \<Rightarrow> c3\<lparr>kReplyMessage := Some (new_MessageReply e r)\<rparr>
                | None \<Rightarrow> c3);
          c5 = c4\<lparr>kForwards :=
                      map (new_MessageForward e)
                        (case fwd_messages m of Some fs \<Rightarrow> fs | None \<Rightarrow> [])\<rparr>
      in case payload_m m of
           None \<Rightarrow> (Inr (), c5)
         | Some s \<Rightarrow>
             if s \<noteq> [] then
               (case JSON_parse e s of
                  Some v \<Rightarrow> (Inr (), c5\<lparr>kMessagePayload := Some v\<rparr>)
                | None \<Rightarrow> (Inl SyntaxError, c5))
             else (Inr (), c5))"

subsection \<open>Accessors\<close>

definition hasText :: "MessageContext \<Rightarrow> bool" where
  "hasText c = truthy (text_c c)"

definition replyMessage :: "MessageContext \<Rightarrow> MessageReply option" where
  "replyMessage c = kReplyMessage c"

definition forwards :: "MessageContext \<Rightarrow> MessageForwardsCollection" where
  "forwards c = kForwards c"

definition attachments :: "MessageContext \<Rightarrow> Attachment list" where
  "attachments c = kAttachments c"

definition messagePayload :: "MessageContext \<Rightarrow> json option" where
  "messagePayload c = kMessagePayload c"

definition hasReplyMessage :: "MessageContext \<Rightarrow> bool" where
  "hasReplyMessage c = (replyMessage c \<noteq> None)"

definition hasForwards :: "MessageContext \<Rightarrow> bool" where
  "hasForwards c = (0 < length (forwards c))"

definition hasMessagePayload :: "MessageContext \<Rightarrow> bool" where
  "hasMessagePayload c = truthy (payload_m (message c))"

definition hasGeo :: "MessageContext \<Rightarrow> bool" where
  "hasGeo c = (case geo_m (message c) of None \<Rightarrow> False | Some g \<Rightarrow> js_truthy g)"

definition id_c :: "MessageContext \<Rightarrow> int" where
  "id_c c = id_m (message c)"

definition conversationMessageId :: "MessageContext \<Rightarrow> int" where
  "conversationMessageId c = conversation_message_id (message c)"

definition peerId :: "MessageContext \<Rightarrow> int" where
  "peerId c = peer_id (message c)"

definition peerType :: "env \<Rightarrow> MessageContext \<Rightarrow> MessageSource" where
  "peerType e c = getPeerType e (peer_id (message c))"

definition senderId :: "MessageContext \<Rightarrow> int" where
  "senderId c = from_id (message c)"

definition senderType :: "env \<Rightarrow> MessageContext \<Rightarrow> MessageSource" where
  "senderType e c = getPeerType e (from_id (message c))"

definition isChat :: "env \<Rightarrow> MessageContext \<Rightarrow> bool" where
  "isChat e c = (peerType e c = CHAT)"

definition isUser :: "env \<Rightarrow> MessageContext \<Rightarrow> bool" where
  "isUser e c = (senderType e c = USER)"

definition isGroup :: "env \<Rightarrow> MessageContext \<Rightarrow> bool" where
  "isGroup e c = (senderType e c = GROUP)"

definition isFromUser :: "env \<Rightarrow> MessageContext \<Rightarrow> bool" where
  "isFromUser e c = (peerType e c = USER)"

definition isFromGroup :: "env \<Rightarrow> MessageContext \<Rightarrow> bool" where
  "isFromGroup e c = (peerType e c = GROUP)"

definition isDM :: "env \<Rightarrow> MessageContext \<Rightarrow> bool" where
  "isDM e c = (isFromUser e c \<or> isFromGroup e c)"

definition eventType :: "MessageContext \<Rightarrow> string option" where
  "eventType c = map_option type_a (action (message c))"

definition eventMemberId :: "MessageContext \<Rightarrow> int option" where
  "eventMemberId c = map_option member_id (action (message c))"

definition eventText :: "MessageContext \<Rightarrow> string option" where
  "eventText c = (case action (message c) of None \<Rightarrow> None | Some a \<Rightarrow> text_a a)"

definition eventEmail :: "MessageContext \<Rightarrow> string option" where
  "eventEmail c = (case action (message c) of None \<Rightarrow> None | Some a \<Rightarrow> email a)"

definition isEvent :: "MessageContext \<Rightarrow> bool" where
  "isEvent c = (eventType c \<noteq> None)"

definition isOutbox :: "MessageContext \<Rightarrow> bool" where
  "isOutbox c = (out (message c) \<noteq> 0)"

definition isInbox :: "MessageContext \<Rightarrow> bool" where
  "isInbox c = (\<not> isOutbox c)"

definition isImportant :: "MessageContext \<Rightarrow> bool" where
  "isImportant c = important (message c)"

definition chatId :: "env \<Rightarrow> MessageContext \<Rightarrow> int option" where
  "chatId e c = (if \<not> isChat e c then None else Some (peerId c - CHAT_PEER e))"

definition referralValue :: "MessageContext \<Rightarrow> string option" where
  "referralValue c = ref (message c)"

definition referralSource :: "MessageContext \<Rightarrow> string option" where
  "referralSource c = ref_source (message c)"

definition createdAt :: "MessageContext \<Rightarrow> int" where
  "createdAt c = date (message c)"

definition updatedAt :: "MessageContext \<Rightarrow> int option" where
  "updatedAt c = update_time (message c)"

definition clientInfo :: "MessageContext \<Rightarrow> client_info_payload" where
  "clientInfo c = client_info (payload c)"

text \<open>The accessor \<^verbatim>\<open>geo\<close>, lines 405 to 418: first the test of \<^verbatim>\<open>hasGeo\<close>, then of \<^verbatim>\<open>$filled\<close>.\<close>

definition geo :: "MessageContext \<Rightarrow> error + json option" where
  "geo c =
     (if \<not> hasGeo c then Inr None
      else if \<not> filled c then
        Inl (VKError ''The message payload is not fully loaded'' ''PAYLOAD_IS_NOT_FULL'')
      else Inr (geo_m (message c)))"

subsection \<open>The constructor\<close>

text \<open>
  The options of the constructor. A long-poll update is a positional array that the
  constructor hands to \<^verbatim>\<open>transformMessage\<close>; any other source delivers an object. The
  TypeScript type of \<^verbatim>\<open>options.payload\<close> does not tell the two shapes apart (the polling
  branch casts); here they are \<open>Tuple\<close> and \<open>Object\<close>, and a shape that does not belong to
  the source of the update, which the callers of the constructor never build, ends in a
  \<^verbatim>\<open>TypeError\<close>.
\<close>

datatype options_payload = Tuple json | Object payload_arg

record options =
  source :: UpdateSource
  payload_o :: options_payload
  updateType :: string
  groupId_o :: "int option"
  state_o :: json

definition subTypesEnum :: "string \<Rightarrow> string option" where
  "subTypesEnum k =
     (if k = ''4'' then Some ''message_new''
      else if k = ''5'' then Some ''message_edit''
      else None)"

text \<open>\<^verbatim>\<open>this.eventType || subTypesEnum[options.updateType] || options.updateType\<close>\<close>

definition subType :: "MessageContext \<Rightarrow> string \<Rightarrow> string" where
  "subType c u =
     (case eventType c of
        Some t \<Rightarrow> if t \<noteq> [] then t else (case subTypesEnum u of Some n \<Rightarrow> n | None \<Rightarrow> u)
      | None \<Rightarrow> (case subTypesEnum u of Some n \<Rightarrow> n | None \<Rightarrow> u))"

text \<open>
  The view before \<^verbatim>\<open>applyPayload\<close> has run: the symbol-keyed fields and \<^verbatim>\<open>$match\<close> are
  \<^verbatim>\<open>undefined\<close>. \<^verbatim>\<open>applyPayload\<close> overwrites \<open>payload\<close>, \<open>text_c\<close>, \<open>kAttachments\<close> and
  \<open>kForwards\<close> whatever they hold.
\<close>

definition fresh :: "options \<Rightarrow> bool \<Rightarrow> payload_arg \<Rightarrow> MessageContext" where
  "fresh opts f a =
     \<lparr>payload = envelope_of a, text_c = None, filled = f, kForwards = [],
      kReplyMessage = None, kAttachments = [], kMessagePayload = None, match = None,
      subTypes = [], groupId = groupId_o opts, state = state_o opts\<rparr>"

definition construct :: "env \<Rightarrow> options \<Rightarrow> bool \<Rightarrow> payload_arg \<Rightarrow> error + MessageContext" where
  "construct e opts f a =
     (case applyPayload e a (fresh opts f a) of
        (Inl err, c) \<Rightarrow> Inl err
      | (Inr u, c) \<Rightarrow> Inr (c\<lparr>subTypes := [subType c (updateType opts)]\<rparr>))"

definition new_MessageContext :: "env \<Rightarrow> options \<Rightarrow> error + MessageContext" where
  "new_MessageContext e opts =
     (if source opts = POLLING then
        (case payload_o opts of
           Tuple t \<Rightarrow> construct e opts False (Bare (transformMessage e t))
         | Object a \<Rightarrow> Inl TypeError)
      else
        (case payload_o opts of
           Tuple t \<Rightarrow> Inl TypeError
         | Object a \<Rightarrow> construct e opts True a))"

section \<open>Operations that call the remote clients\<close>

text \<open>
  The remote calls an operation issues, in order. \<^verbatim>\<open>chat_id: this.chatId!\<close> passes the
  value of the accessor, which is \<^verbatim>\<open>undefined\<close> outside a chat, hence the \<open>option\<close>.
\<close>

datatype remote_call =
    MessagesGetById int
  | MessagesGetByConversationMessageId int int
  | MessagesSend "(string \<times> json) list"
  | MessagesMarkAsImportant "int list" int
  | MessagesEditChat "int option" string
  | UploadChatPhoto "int option" json "(string \<times> json) list"
  | MessagesDeleteChatPhoto "int option"
  | MessagesAddChatUser "int option" "int option"
  | MessagesRemoveChatUser "int option" "int option"
  | MessagesPin int int
  | MessagesUnpin int int

text \<open>
  The clients \<^verbatim>\<open>this.api\<close> and \<^verbatim>\<open>this.upload\<close>: one function for each method the
  operations below call. \<open>Inl\<close> is a rejected promise. \<open>messages_getById\<close> and
  \<open>messages_getByConversationMessageId\<close> return the \<^verbatim>\<open>items\<close> of the response.
\<close>

record api =
  messages_getById :: "int \<Rightarrow> error + message_payload list"
  messages_getByConversationMessageId :: "int \<Rightarrow> int \<Rightarrow> error + message_payload list"
  messages_send :: "(string \<times> json) list \<Rightarrow> error + int"
  messages_markAsImportant :: "int list \<Rightarrow> int \<Rightarrow> error + int list"
  messages_editChat :: "int option \<Rightarrow> string \<Rightarrow> error + int"
  messages_deleteChatPhoto :: "int option \<Rightarrow> error + json"
  messages_addChatUser :: "int option \<Rightarrow> int option \<Rightarrow> error + int"
  messages_removeChatUser :: "int option \<Rightarrow> int option \<Rightarrow> error + int"
  messages_pin :: "int \<Rightarrow> int \<Rightarrow> error + int"
  messages_unpin :: "int \<Rightarrow> int \<Rightarrow> error + int"
  upload_chatPhoto :: "int option \<Rightarrow> json \<Rightarrow> (string \<times> json) list \<Rightarrow> error + json"

text \<open>
  What running an operation on a view gives: the calls issued, the value the promise
  resolves to or the error it rejects with, and the view afterwards.
\<close>

record 'a run =
  calls :: "remote_call list"
  result :: "error + 'a"
  after :: MessageContext

subsection \<open>\<^verbatim>\<open>loadMessagePayload\<close>\<close>

text \<open>
  \<^verbatim>\<open>const [message] = items\<close> gives \<^verbatim>\<open>undefined\<close> for an empty list, and
  \<^verbatim>\<open>'client_info' in undefined\<close>, the first statement of \<^verbatim>\<open>applyPayload\<close>, throws a
  \<^verbatim>\<open>TypeError\<close> before anything is assigned.
\<close>

definition loadMessagePayload :: "env \<Rightarrow> api \<Rightarrow> bool \<Rightarrow> MessageContext \<Rightarrow> unit run" where
  "loadMessagePayload e a force c =
     (if filled c \<and> \<not> force then \<lparr>calls = [], result = Inr (), after = c\<rparr>
      else
        (let call = (if id_c c \<noteq> 0 then MessagesGetById (id_c c)
                     else MessagesGetByConversationMessageId (peerId c) (conversationMessageId c));
             response = (if id_c c \<noteq> 0 then messages_getById a (id_c c)
                         else messages_getByConversationMessageId a (peerId c)
                                (conversationMessageId c))
         in case response of
              Inl err \<Rightarrow> \<lparr>calls = [call], result = Inl err, after = c\<rparr>
            | Inr items \<Rightarrow>
                (case items of
                   [] \<Rightarrow> \<lparr>calls = [call], result = Inl TypeError, after = c\<rparr>
                 | m # rest \<Rightarrow>
                     (case applyPayload e (Bare m) c of
                        (Inl err, c') \<Rightarrow> \<lparr>calls = [call], result = Inl err, after = c'\<rparr>
                      | (Inr u, c') \<Rightarrow>
                          \<lparr>calls = [call], result = Inr (), after = c'\<lparr>filled := True\<rparr>\<rparr>))))"

subsection \<open>\<^verbatim>\<open>send\<close>\<close>

text \<open>
  An options object (\<^verbatim>\<open>IMessageContextSendOptions\<close>) is its list of properties; the spread
  \<^verbatim>\<open>{...a, ...b}\<close> assigns the properties of \<open>b\<close> to a copy of \<open>a\<close> in order, so a property
  present in both keeps its place and takes the value of \<open>b\<close>.
\<close>

definition spread :: "(string \<times> json) list \<Rightarrow> (string \<times> json) list \<Rightarrow> (string \<times> json) list" where
  "spread a b = foldl (\<lambda>acc (k, v). AList.update k v acc) a b"

datatype send_arg = Text string | Options "(string \<times> json) list"

definition send_options ::
  "MessageContext \<Rightarrow> int \<Rightarrow> send_arg \<Rightarrow> (string \<times> json) list option \<Rightarrow> (string \<times> json) list" where
  "send_options c randomId txt params =
     spread [(''peer_id'', JNumber (peerId c) 0), (''random_id'', JNumber randomId 0)]
       (case txt of
          Text s \<Rightarrow> spread [(''message'', JString s)] (case params of None \<Rightarrow> [] | Some p \<Rightarrow> p)
        | Options opts \<Rightarrow> opts)"

text \<open>
  The property \<^verbatim>\<open>text\<close> of the message of the new view is \<^verbatim>\<open>options.text\<close>. The interface
  declares the text of a message as a string; a value of another type is left out.
\<close>

definition string_property :: "(string \<times> json) list \<Rightarrow> string \<Rightarrow> string option" where
  "string_property obj k = (case map_of obj k of Some (JString s) \<Rightarrow> Some s | _ \<Rightarrow> None)"

text \<open>
  \<open>randomId\<close> is the value of \<^verbatim>\<open>getRandomId()\<close> and \<open>now\<close> the value of \<^verbatim>\<open>Date.now()\<close>, in
  milliseconds, at the call. The result is the new view; the view \<^verbatim>\<open>send\<close> was called on
  is not changed.
\<close>

definition send ::
  "env \<Rightarrow> api \<Rightarrow> int \<Rightarrow> int \<Rightarrow> send_arg \<Rightarrow> (string \<times> json) list option
    \<Rightarrow> MessageContext \<Rightarrow> MessageContext run" where
  "send e a randomId now txt params c =
     (let opts = send_options c randomId txt params
      in case messages_send a opts of
           Inl err \<Rightarrow> \<lparr>calls = [MessagesSend opts], result = Inl err, after = c\<rparr>
         | Inr new_id \<Rightarrow>
             (case new_MessageContext e
                     \<lparr>source = WEBHOOK,
                      payload_o = Object (Enveloped
                        \<lparr>message_p =
                           \<lparr>id_m = new_id, conversation_message_id = 0, out = 1,
                            peer_id = peer_id (message c), from_id = from_id (message c),
                            text_m = string_property opts ''text'', date = now div 1000,
                            update_time = None, random_id = randomId, ref = None,
                            ref_source = None, attachments_m = [], important = False,
                            geo_m = None, payload_m = None, reply_message = None,
                            fwd_messages = None, action = None\<rparr>,
                         client_info = clientInfo c\<rparr>),
                      updateType = ''message_new'', groupId_o = groupId c,
                      state_o = state c\<rparr> of
                Inl err \<Rightarrow> \<lparr>calls = [MessagesSend opts], result = Inl err, after = c\<rparr>
              | Inr messageContext \<Rightarrow>
                  \<lparr>calls = [MessagesSend opts],
                   result = Inr (messageContext\<lparr>filled := False\<rparr>), after = c\<rparr>))"

subsection \<open>\<^verbatim>\<open>markAsImportant\<close>\<close>

text \<open>
  The two parameters have defaults: \<^verbatim>\<open>ids = [this.id]\<close> and
  \<^verbatim>\<open>options = { important: Number(!this.isImportant) }\<close>; \<open>None\<close> is a parameter left out.
  \<^verbatim>\<open>this.message.important = ...\<close> assigns into the message held by \<open>payload\<close>.
\<close>

definition set_important :: "bool \<Rightarrow> MessageContext \<Rightarrow> MessageContext" where
  "set_important b c = c\<lparr>payload := (payload c)\<lparr>message_p := (message c)\<lparr>important := b\<rparr>\<rparr>\<rparr>"

definition markAsImportant ::
  "api \<Rightarrow> int list option \<Rightarrow> int option \<Rightarrow> MessageContext \<Rightarrow> int list run" where
  "markAsImportant a ids_opt important_opt c =
     (let ids = (case ids_opt of None \<Rightarrow> [id_c c] | Some l \<Rightarrow> l);
          imp = (case important_opt of
                   None \<Rightarrow> (if \<not> isImportant c then 1 else 0)
                 | Some n \<Rightarrow> n)
      in case messages_markAsImportant a ids imp of
           Inl err \<Rightarrow> \<lparr>calls = [MessagesMarkAsImportant ids imp], result = Inl err, after = c\<rparr>
         | Inr messageIds \<Rightarrow>
             \<lparr>calls = [MessagesMarkAsImportant ids imp], result = Inr messageIds,
              after = (if id_c c \<in> set messageIds then set_important (imp \<noteq> 0) c else c)\<rparr>)"

subsection \<open>Operations on a chat\<close>

definition assertIsChat :: "env \<Rightarrow> MessageContext \<Rightarrow> error + unit" where
  "assertIsChat e c =
     (if \<not> isChat e c then Inl (VKError ''This method is only available in chat'' ''IS_NOT_CHAT'')
      else Inr ())"

definition renameChat :: "env \<Rightarrow> api \<Rightarrow> string \<Rightarrow> MessageContext \<Rightarrow> bool run" where
  "renameChat e a title c =
     (case assertIsChat e c of
        Inl err \<Rightarrow> \<lparr>calls = [], result = Inl err, after = c\<rparr>
      | Inr u \<Rightarrow>
          \<lparr>calls = [MessagesEditChat (chatId e c) title],
           result = map_sum id (\<lambda>isRenamed. isRenamed \<noteq> 0) (messages_editChat a (chatId e c) title),
           after = c\<rparr>)"

definition newChatPhoto ::
  "env \<Rightarrow> api \<Rightarrow> json \<Rightarrow> (string \<times> json) list \<Rightarrow> MessageContext \<Rightarrow> json run" where
  "newChatPhoto e a src params c =
     (case assertIsChat e c of
        Inl err \<Rightarrow> \<lparr>calls = [], result = Inl err, after = c\<rparr>
      | Inr u \<Rightarrow>
          \<lparr>calls = [UploadChatPhoto (chatId e c) src params],
           result = upload_chatPhoto a (chatId e c) src params,
           after = c\<rparr>)"

definition deleteChatPhoto :: "env \<Rightarrow> api \<Rightarrow> MessageContext \<Rightarrow> bool run" where
  "deleteChatPhoto e a c =
     (case assertIsChat e c of
        Inl err \<Rightarrow> \<lparr>calls = [], result = Inl err, after = c\<rparr>
      | Inr u \<Rightarrow>
          \<lparr>calls = [MessagesDeleteChatPhoto (chatId e c)],
           result = map_sum id (\<lambda>r. True) (messages_deleteChatPhoto a (chatId e c)),
           after = c\<rparr>)"

text \<open>The parameter \<^verbatim>\<open>id\<close> of the next two has the default \<^verbatim>\<open>this.eventMemberId\<close>.\<close>

definition inviteUser :: "env \<Rightarrow> api \<Rightarrow> int option \<Rightarrow> MessageContext \<Rightarrow> bool run" where
  "inviteUser e a id_opt c =
     (let user = (case id_opt of None \<Rightarrow> eventMemberId c | Some i \<Rightarrow> Some i)
      in case assertIsChat e c of
           Inl err \<Rightarrow> \<lparr>calls = [], result = Inl err, after = c\<rparr>
         | Inr u \<Rightarrow>
             \<lparr>calls = [MessagesAddChatUser (chatId e c) user],
              result = map_sum id (\<lambda>isInvited. isInvited \<noteq> 0)
                         (messages_addChatUser a (chatId e c) user),
              after = c\<rparr>)"

definition kickUser :: "env \<Rightarrow> api \<Rightarrow> int option \<Rightarrow> MessageContext \<Rightarrow> bool run" where
  "kickUser e a id_opt c =
     (let member = (case id_opt of None \<Rightarrow> eventMemberId c | Some i \<Rightarrow> Some i)
      in case assertIsChat e c of
           Inl err \<Rightarrow> \<lparr>calls = [], result = Inl err, after = c\<rparr>
         | Inr u \<Rightarrow>
             \<lparr>calls = [MessagesRemoveChatUser (chatId e c) member],
              result = map_sum id (\<lambda>isKicked. isKicked \<noteq> 0)
                         (messages_removeChatUser a (chatId e c) member),
              after = c\<rparr>)"

definition pinMessage :: "env \<Rightarrow> api \<Rightarrow> MessageContext \<Rightarrow> bool run" where
  "pinMessage e a c =
     (case assertIsChat e c of
        Inl err \<Rightarrow> \<lparr>calls = [], result = Inl err, after = c\<rparr>
      | Inr u \<Rightarrow>
          \<lparr>calls = [MessagesPin (peerId c) (id_c c)],
           result = map_sum id (\<lambda>isPinned. isPinned \<noteq> 0) (messages_pin a (peerId c) (id_c c)),
           after = c\<rparr>)"

definition unpinMessage :: "env \<Rightarrow> api \<Rightarrow> MessageContext \<Rightarrow> bool run" where
  "unpinMessage e a c =
     (case assertIsChat e c of
        Inl err \<Rightarrow> \<lparr>calls = [], result = Inl err, after = c\<rparr>
      | Inr u \<Rightarrow>
          \<lparr>calls = [MessagesUnpin (peerId c) (id_c c)],
           result = map_sum id (\<lambda>isUnpinned. isUnpinned \<noteq> 0)
                      (messages_unpin a (peerId c) (id_c c)),
           after = c\<rparr>)"

section \<open>The mixin \<^verbatim>\<open>AllAttachmentable\<close>\<close>

text \<open>
  \<^verbatim>\<open>applyMixins\<close> gives \<^verbatim>\<open>MessageContext\<close> the methods of \<^verbatim>\<open>Attachmentable\<close>, which work
  on \<^verbatim>\<open>this.attachments\<close>, and the two methods below.
\<close>

definition hasAllAttachments :: "string option \<Rightarrow> MessageContext \<Rightarrow> bool" where
  "hasAllAttachments kind c =
     (hasAttachments kind (attachments c)
      \<or> (case replyMessage c of None \<Rightarrow> False | Some r \<Rightarrow> hasAttachments kind (attachments_r r))
      \<or> hasAttachments_forwards kind (forwards c))"

definition getAllAttachments :: "string \<Rightarrow> MessageContext \<Rightarrow> Attachment list" where
  "getAllAttachments kind c =
     getAttachments (Some kind) (attachments c)
     @ (case replyMessage c of None \<Rightarrow> [] | Some r \<Rightarrow> getAttachments (Some kind) (attachments_r r))
     @ getAttachments_forwards (Some kind) (forwards c)"

section \<open>The serialized view\<close>

text \<open>The names \<^verbatim>\<open>[kSerializeData]()\<close> hands to \<^verbatim>\<open>pickProperties\<close>, built as the method does.\<close>

definition kSerializeData_names :: "MessageContext \<Rightarrow> string list" where
  "kSerializeData_names c =
     (let beforeAttachments0 = [];
          beforeAttachments1 =
            (if isEvent c
             then beforeAttachments0 @ [''eventType'', ''eventMemberId'', ''eventText'', ''eventEmail'']
             else beforeAttachments0);
          beforeAttachments =
            (if hasReplyMessage c then beforeAttachments1 @ [''replyMessage'']
             else beforeAttachments1);
          afterAttachments0 = [];
          afterAttachments1 =
            (if hasMessagePayload c then afterAttachments0 @ [''messagePayload'']
             else afterAttachments0);
          afterAttachments2 = afterAttachments1 @ [''isOutbox''];
          afterAttachments3 =
            (if truthy (referralValue c)
             then afterAttachments2 @ [''referralValue'', ''referralSource'']
             else afterAttachments2);
          afterAttachments =
            (if match c \<noteq> None then afterAttachments3 @ [''$match''] else afterAttachments3)
      in [''id'', ''conversationMessageId'', ''peerId'', ''peerType'', ''senderId'',
          ''senderType'', ''createdAt'', ''updatedAt'', ''text'']
         @ beforeAttachments @ [''forwards'', ''attachments''] @ afterAttachments)"

text \<open>The value of a property of the view, for the names above; any other name is not read.\<close>

datatype js_value =
    Undefined
  | Num int
  | Str string
  | Bool bool
  | Source MessageSource
  | Any json
  | Reply MessageReply
  | Forwards MessageForwardsCollection
  | Attachments "Attachment list"
  | Match "string list"

definition optional :: "('a \<Rightarrow> js_value) \<Rightarrow> 'a option \<Rightarrow> js_value" where
  "optional f x = (case x of None \<Rightarrow> Undefined | Some v \<Rightarrow> f v)"

definition property :: "env \<Rightarrow> MessageContext \<Rightarrow> string \<Rightarrow> js_value" where
  "property e c k =
     (if k = ''id'' then Num (id_c c)
      else if k = ''conversationMessageId'' then Num (conversationMessageId c)
      else if k = ''peerId'' then Num (peerId c)
      else if k = ''peerType'' then Source (peerType e c)
      else if k = ''senderId'' then Num (senderId c)
      else if k = ''senderType'' then Source (senderType e c)
      else if k = ''createdAt'' then Num (createdAt c)
      else if k = ''updatedAt'' then optional Num (updatedAt c)
      else if k = ''text'' then optional Str (text_c c)
      else if k = ''eventType'' then optional Str (eventType c)
      else if k = ''eventMemberId'' then optional Num (eventMemberId c)
      else if k = ''eventText'' then optional Str (eventText c)
      else if k = ''eventEmail'' then optional Str (eventEmail c)
      else if k = ''replyMessage'' then optional Reply (replyMessage c)
      else if k = ''forwards'' then Forwards (forwards c)
      else if k = ''attachments'' then Attachments (attachments c)
      else if k = ''messagePayload'' then optional Any (messagePayload c)
      else if k = ''isOutbox'' then Bool (isOutbox c)
      else if k = ''referralValue'' then optional Str (referralValue c)
      else if k = ''referralSource'' then optional Str (referralSource c)
      else if k = ''$match'' then optional Match (match c)
      else Undefined)"

text \<open>
  Modelled from the spec: \<^verbatim>\<open>pickProperties\<close> of \<^verbatim>\<open>utils/helpers\<close> is not among the sources.
  By section 6 of the specification the serialized view is the projection of the view on
  the given names, in their order.
\<close>

definition pickProperties :: "(string \<Rightarrow> js_value) \<Rightarrow> string list \<Rightarrow> (string \<times> js_value) list" where
  "pickProperties obj names = map (\<lambda>k. (k, obj k)) names"

definition kSerializeData :: "env \<Rightarrow> MessageContext \<Rightarrow> (string \<times> js_value) list" where
  "kSerializeData e c = pickProperties (property e c) (kSerializeData_names c)"

section \<open>An instance of the collaborators\<close>

text \<open>
  Modelled from the spec: one value of \<open>env\<close>, for evaluating the functions above at
  concrete inputs. The specification says of the missing helpers: the text is decoded by
  an HTML-entity unescape; a peer is a chat when its id lies above the chat base, and the
  chat id is the peer id minus that base (peer \<open>2000000001\<close> is chat \<open>1\<close>); a raw attachment
  becomes a descriptor tagged with its kind; the long-poll decoder maps the positional
  tuple \<open>[kind, id, flags, peerId, ts, text]\<close> to a fragment. Ids below zero are taken to be
  communities. What the specification leaves open is filled with the simplest choice:
  the entities unescaped are \<^verbatim>\<open>&lt;\<close>, \<^verbatim>\<open>&gt;\<close>, \<^verbatim>\<open>&quot;\<close> and \<^verbatim>\<open>&amp;\<close>, a descriptor cannot be
  attached again, and a decoded tuple has no other data than the four fields named.
\<close>

function unescapeHTML_spec :: "string \<Rightarrow> string" where
  "unescapeHTML_spec [] = []"
| "unescapeHTML_spec (c # cs) =
     (if c = CHR ''&'' \<and> prefix ''lt;'' cs then CHR ''<'' # unescapeHTML_spec (drop 3 cs)
      else if c = CHR ''&'' \<and> prefix ''gt;'' cs then CHR ''>'' # unescapeHTML_spec (drop 3 cs)
      else if c = CHR ''&'' \<and> prefix ''quot;'' cs then CHR 0x22 # unescapeHTML_spec (drop 5 cs)
      else if c = CHR ''&'' \<and> prefix ''amp;'' cs then CHR ''&'' # unescapeHTML_spec (drop 4 cs)
      else c # unescapeHTML_spec cs)"
  by pat_completeness auto
termination
  by (relation "measure length") auto

definition attachment_of :: "json \<Rightarrow> Attachment option" where
  "attachment_of j =
     (case j of
        JObject kvs \<Rightarrow>
          (case map_of kvs ''type'' of
             Some (JString t) \<Rightarrow> Some \<lparr>type_att = t, canBeAttached = False, raw = j\<rparr>
           | _ \<Rightarrow> None)
      | _ \<Rightarrow> None)"

definition transformAttachments_spec :: "json list \<Rightarrow> Attachment list" where
  "transformAttachments_spec raws = List.map_filter attachment_of raws"

definition getPeerType_spec :: "int \<Rightarrow> MessageSource" where
  "getPeerType_spec i = (if 2000000000 < i then CHAT else if i < 0 then GROUP else USER)"

definition empty_message :: message_payload where
  "empty_message =
     \<lparr>id_m = 0, conversation_message_id = 0, out = 0, peer_id = 0, from_id = 0,
      text_m = None, date = 0, update_time = None, random_id = 0, ref = None,
      ref_source = None, attachments_m = [], important = False, geo_m = None,
      payload_m = None, reply_message = None, fwd_messages = None, action = None\<rparr>"

definition transformMessage_spec :: "json \<Rightarrow> message_payload" where
  "transformMessage_spec j =
     (case j of
        JArray (kind # JNumber i d1 # flags # JNumber p d2 # JNumber ts d3 # JString t # rest) \<Rightarrow>
          empty_message\<lparr>id_m := i, peer_id := p, date := ts, text_m := Some t\<rparr>
      | _ \<Rightarrow> empty_message)"

definition std_env :: env where
  "std_env =
     \<lparr>unescapeHTML = unescapeHTML_spec, transformAttachments = transformAttachments_spec,
      transformMessage = transformMessage_spec, getPeerType = getPeerType_spec,
      CHAT_PEER = 2000000000, JSON_parse = json_parse\<rparr>"

section \<open>Example inputs\<close>

text \<open>
  A message of chat 1 as a webhook delivers it and the view the constructor builds from
  it; a reply and a forwarded fragment, a message that carries both, and its view; the
  same view as a stub, with and without location data and without an id; a view of a
  direct conversation; a view of a chat event; remote clients that answer every call.
\<close>

definition example_message :: message_payload where
  \<open>example_message =
     \<lparr>id_m = 10, conversation_message_id = 3, out = 0, peer_id = 2000000001, from_id = 42,
      text_m = Some ''a &lt; b'', date = 1600000000, update_time = None, random_id = 0,
      ref = None, ref_source = None,
      attachments_m = [JObject [(''type'', JString ''photo''), (''photo'', JObject [])]],
      important = False, geo_m = None, payload_m = Some ''{"a":1}'', reply_message = None,
      fwd_messages = None, action = None\<rparr>\<close>

definition example_options :: "payload_arg \<Rightarrow> options" where
  "example_options a =
     \<lparr>source = WEBHOOK, payload_o = Object a, updateType = ''message_new'',
      groupId_o = None, state_o = JObject []\<rparr>"

definition example_reply :: reply_payload where
  "example_reply =
     \<lparr>reply_id = 9, reply_conversation_message_id = 2, reply_peer_id = 2000000001,
      reply_from_id = 43, reply_text = Some ''earlier'', reply_date = 1599999000,
      reply_attachments = [JObject [(''type'', JString ''photo'')],
                           JObject [(''type'', JString ''doc'')]]\<rparr>"

definition example_forward :: forward_payload where
  "example_forward =
     ForwardPayload 44 (Some ''forwarded'') 1599998000
       [JObject [(''type'', JString ''doc'')], JObject [(''type'', JString ''photo'')]] []"

definition example_api :: api where
  "example_api =
     \<lparr>messages_getById = (\<lambda>i. Inr [example_message]),
      messages_getByConversationMessageId = (\<lambda>p i. Inr [example_message]),
      messages_send = (\<lambda>opts. Inr 77),
      messages_markAsImportant = (\<lambda>ids imp. Inr [10, 11]),
      messages_editChat = (\<lambda>ch title. Inr 1),
      messages_deleteChatPhoto = (\<lambda>ch. Inr JNull),
      messages_addChatUser = (\<lambda>ch u. Inr 1),
      messages_removeChatUser = (\<lambda>ch u. Inr 1),
      messages_pin = (\<lambda>p i. Inr 1),
      messages_unpin = (\<lambda>p i. Inr 1),
      upload_chatPhoto = (\<lambda>ch src params. Inr JNull)\<rparr>"

definition example_view :: MessageContext where
  "example_view =
     \<lparr>payload = \<lparr>message_p = example_message, client_info = default_client_info\<rparr>,
      text_c = Some ''a < b'', filled = True, kForwards = [], kReplyMessage = None,
      kAttachments =
        [\<lparr>type_att = ''photo'', canBeAttached = False,
          raw = JObject [(''type'', JString ''photo''), (''photo'', JObject [])]\<rparr>],
      kMessagePayload = Some (JObject [(''a'', JNumber 1 0)]), match = None,
      subTypes = [''message_new''], groupId = None, state = JObject []\<rparr>"

definition stub_example :: MessageContext where
  "stub_example = example_view\<lparr>filled := False\<rparr>"

definition example_geo :: json where
  "example_geo =
     JObject [(''type'', JString ''point''),
              (''coordinates'', JObject [(''latitude'', JNumber 5575 2),
                                         (''longitude'', JNumber 3762 2)])]"

definition stub_with_geo :: MessageContext where
  "stub_with_geo =
     stub_example\<lparr>payload := \<lparr>message_p = example_message\<lparr>geo_m := Some example_geo\<rparr>,
                               client_info = default_client_info\<rparr>\<rparr>"

definition replied_message :: message_payload where
  "replied_message =
     example_message\<lparr>reply_message := Some example_reply,
                      fwd_messages := Some [example_forward]\<rparr>"

definition replied_api :: api where
  "replied_api = example_api\<lparr>messages_getById := (\<lambda>i. Inr [replied_message])\<rparr>"

definition replied_view :: MessageContext where
  "replied_view =
     example_view\<lparr>payload := \<lparr>message_p = replied_message, client_info = default_client_info\<rparr>,
                   kReplyMessage := Some (new_MessageReply std_env example_reply),
                   kForwards := [new_MessageForward std_env example_forward]\<rparr>"

definition unnumbered_stub :: MessageContext where
  "unnumbered_stub =
     stub_example\<lparr>payload := \<lparr>message_p = example_message\<lparr>id_m := 0\<rparr>,
                               client_info = default_client_info\<rparr>\<rparr>"

definition direct_view :: MessageContext where
  "direct_view =
     example_view\<lparr>payload := \<lparr>message_p = example_message\<lparr>peer_id := 42\<rparr>,
                               client_info = default_client_info\<rparr>\<rparr>"

definition example_forwards_view :: MessageContext where
  "example_forwards_view =
     example_view\<lparr>kReplyMessage := Some (new_MessageReply std_env example_reply),
                   kForwards := [new_MessageForward std_env example_forward,
                                 new_MessageForward std_env example_forward]\<rparr>"

definition event_view :: MessageContext where
  "event_view =
     example_forwards_view
       \<lparr>payload := \<lparr>message_p =
            example_message\<lparr>action := Some \<lparr>type_a = ''chat_invite_user'', member_id = 5,
                                              text_a = None, email = None, photo = None\<rparr>,
                             ref := Some ''promo'', ref_source := Some ''ad''\<rparr>,
          client_info = default_client_info\<rparr>,
        match := Some [''a'']\<rparr>"

section \<open>What \<^verbatim>\<open>applyPayload\<close> assigns\<close>

lemma applyPayload_payload:
  "payload (snd (applyPayload e a c)) = envelope_of a"
  by (simp add: applyPayload_def Let_def message_def split: option.splits)

lemma applyPayload_text:
  "text_c (snd (applyPayload e a c)) =
     (case text_m (message_p (envelope_of a)) of
        None \<Rightarrow> None
      | Some t \<Rightarrow> if t \<noteq> [] then Some (unescapeHTML e t) else None)"
  by (simp add: applyPayload_def Let_def message_def split: option.splits)

lemma applyPayload_attachments:
  "kAttachments (snd (applyPayload e a c)) =
     transformAttachments e (attachments_m (message_p (envelope_of a)))"
  by (simp add: applyPayload_def Let_def message_def split: option.splits)

lemma applyPayload_forwards:
  "kForwards (snd (applyPayload e a c)) =
     map (new_MessageForward e)
       (case fwd_messages (message_p (envelope_of a)) of Some fs \<Rightarrow> fs | None \<Rightarrow> [])"
  by (simp add: applyPayload_def Let_def message_def split: option.splits)

lemma applyPayload_reply:
  "kReplyMessage (snd (applyPayload e a c)) =
     (case reply_message (message_p (envelope_of a)) of
        Some r \<Rightarrow> Some (new_MessageReply e r)
      | None \<Rightarrow> kReplyMessage c)"
  by (simp add: applyPayload_def Let_def message_def split: option.splits)

lemma applyPayload_outcome:
  "fst (applyPayload e a c) =
     (case payload_m (message_p (envelope_of a)) of
        None \<Rightarrow> Inr ()
      | Some s \<Rightarrow>
          if s \<noteq> [] then (case JSON_parse e s of Some v \<Rightarrow> Inr () | None \<Rightarrow> Inl SyntaxError)
          else Inr ())"
  by (simp add: applyPayload_def Let_def message_def split: option.splits)

lemma applyPayload_messagePayload:
  "kMessagePayload (snd (applyPayload e a c)) =
     (case payload_m (message_p (envelope_of a)) of
        None \<Rightarrow> kMessagePayload c
      | Some s \<Rightarrow>
          if s \<noteq> [] then (case JSON_parse e s of Some v \<Rightarrow> Some v | None \<Rightarrow> kMessagePayload c)
          else kMessagePayload c)"
  by (simp add: applyPayload_def Let_def message_def split: option.splits)

lemma applyPayload_frame:
  "filled (snd (applyPayload e a c)) = filled c"
  "match (snd (applyPayload e a c)) = match c"
  "subTypes (snd (applyPayload e a c)) = subTypes c"
  "groupId (snd (applyPayload e a c)) = groupId c"
  "state (snd (applyPayload e a c)) = state c"
  by (simp_all add: applyPayload_def Let_def message_def split: option.splits)

lemma fresh_kMessagePayload: "kMessagePayload (fresh opts f a) = None"
  by (simp add: fresh_def)

lemma json_parse_object: \<open>json_parse ''{"a":1}'' = Some (JObject [(''a'', JNumber 1 0)])\<close>
  by code_simp

lemma json_parse_not_json: "json_parse ''not json'' = None"
  by code_simp

lemma unescapeHTML_spec_example: "unescapeHTML_spec ''a &lt; b'' = ''a < b''"
  by (simp add: prefix_def)

lemma example_view_constructed:
  "new_MessageContext std_env (example_options (Bare example_message)) = Inr example_view"
  by (simp add: new_MessageContext_def example_options_def construct_def applyPayload_def
      fresh_def envelope_of_def message_def Let_def example_message_def std_env_def
      json_parse_object unescapeHTML_spec_example transformAttachments_spec_def
      List.map_filter_def attachment_of_def example_view_def subType_def eventType_def
      subTypesEnum_def)

lemma replied_view_constructed:
  "new_MessageContext std_env (example_options (Bare replied_message)) = Inr replied_view"
  by (simp add: new_MessageContext_def example_options_def construct_def applyPayload_def
      fresh_def envelope_of_def message_def Let_def example_message_def std_env_def
      json_parse_object unescapeHTML_spec_example transformAttachments_spec_def
      List.map_filter_def attachment_of_def example_view_def subType_def eventType_def
      subTypesEnum_def replied_message_def replied_view_def)

lemma applyPayload_succeeds:
  assumes "\<forall>s. payload_m (message_p (envelope_of a)) = Some s \<and> s \<noteq> [] \<longrightarrow> JSON_parse e s \<noteq> None"
  shows "fst (applyPayload e a c) = Inr ()"
  using assms by (auto simp: applyPayload_outcome split: option.splits)

lemma subseq_concat_filter:
  "subseq (concat (map (\<lambda>f. filter P (g f)) fs)) (concat (map g fs))"
  by (induction fs) (auto intro: list_emb_append_mono)

lemma loadMessagePayload_applied:
  assumes "\<not> (filled c \<and> \<not> force)"
    and "(if id_c c \<noteq> 0 then messages_getById a (id_c c)
          else messages_getByConversationMessageId a (peerId c) (conversationMessageId c))
         = Inr (m # rest)"
    and "fst (applyPayload e (Bare m) c) = Inr ()"
  shows "result (loadMessagePayload e a force c) = Inr ()"
    and "after (loadMessagePayload e a force c) = (snd (applyPayload e (Bare m) c))\<lparr>filled := True\<rparr>"
proof -
  obtain r c' where ap: "applyPayload e (Bare m) c = (r, c')"
    by (cases "applyPayload e (Bare m) c") auto
  with assms(3) have r: "r = Inr ()"
    by simp
  have "loadMessagePayload e a force c
      = \<lparr>calls = [if id_c c \<noteq> 0 then MessagesGetById (id_c c)
                   else MessagesGetByConversationMessageId (peerId c) (conversationMessageId c)],
         result = Inr (), after = c'\<lparr>filled := True\<rparr>\<rparr>"
  proof (cases "id_c c = 0")
    case True
    with assms(2) have "messages_getByConversationMessageId a (peerId c) (conversationMessageId c)
        = Inr (m # rest)"
      by simp
    with True assms(1) ap r show ?thesis
      by (simp add: loadMessagePayload_def)
  next
    case False
    with assms(2) have "messages_getById a (id_c c) = Inr (m # rest)"
      by simp
    with False assms(1) ap r show ?thesis
      by (simp add: loadMessagePayload_def)
  qed
  with ap show "result (loadMessagePayload e a force c) = Inr ()"
    and "after (loadMessagePayload e a force c) = (snd (applyPayload e (Bare m) c))\<lparr>filled := True\<rparr>"
    by simp_all
qed

lemma send_options_text:
  "send_options c randomId (Text s) None =
     [(''peer_id'', JNumber (peerId c) 0), (''random_id'', JNumber randomId 0),
      (''message'', JString s)]"
  by (simp add: send_options_def spread_def)

lemma chat_operations_in_chat:
  "isChat std_env example_view
   \<and> renameChat std_env example_api ''title'' example_view =
       \<lparr>calls = [MessagesEditChat (Some 1) ''title''], result = Inr True, after = example_view\<rparr>"
  by (simp add: renameChat_def assertIsChat_def isChat_def peerType_def chatId_def peerId_def
      message_def example_view_def example_message_def std_env_def getPeerType_spec_def
      example_api_def)

section \<open>Properties\<close>

subsection \<open>Decoding of the message payload\<close>

text \<open>
  C1, as the code has it. \<^verbatim>\<open>applyPayload\<close> decodes the property \<^verbatim>\<open>payload\<close> of the fragment
  once, when the fragment is applied; the accessor \<^verbatim>\<open>messagePayload\<close> only reads the field
  that holds the result. When \<^verbatim>\<open>payload\<close> is absent or the empty string nothing is decoded
  and nothing is thrown: on a view that holds no decoded payload, as every view under
  construction, \<^verbatim>\<open>messagePayload\<close> is \<^verbatim>\<open>undefined\<close>. When \<^verbatim>\<open>payload\<close> is a non-empty string
  that \<^verbatim>\<open>JSON.parse\<close> accepts, \<^verbatim>\<open>messagePayload\<close> is the decoded value. When \<^verbatim>\<open>payload\<close> is
  a non-empty string that \<^verbatim>\<open>JSON.parse\<close> rejects, \<^verbatim>\<open>applyPayload\<close> throws the
  \<^verbatim>\<open>SyntaxError\<close> of \<^verbatim>\<open>JSON.parse\<close>: there is no handler around the call.
\<close>

theorem applyPayload_decodes_payload:
  "(kMessagePayload c = None
      \<and> (payload_m (message_p (envelope_of a)) = None
          \<or> payload_m (message_p (envelope_of a)) = Some [])
      \<longrightarrow> fst (applyPayload e a c) = Inr () \<and> messagePayload (snd (applyPayload e a c)) = None)
   \<and> (\<forall>s j. payload_m (message_p (envelope_of a)) = Some s \<and> s \<noteq> [] \<and> JSON_parse e s = Some j
      \<longrightarrow> fst (applyPayload e a c) = Inr ()
          \<and> messagePayload (snd (applyPayload e a c)) = Some j)
   \<and> (\<forall>s. payload_m (message_p (envelope_of a)) = Some s \<and> s \<noteq> [] \<and> JSON_parse e s = None
      \<longrightarrow> fst (applyPayload e a c) = Inl SyntaxError)"
  by (auto simp: applyPayload_outcome applyPayload_messagePayload messagePayload_def)

theorem applyPayload_decodes_payload_witness:
  \<open>(kMessagePayload (fresh (example_options (Bare (example_message\<lparr>payload_m := None\<rparr>))) True
                          (Bare (example_message\<lparr>payload_m := None\<rparr>))) = None
     \<and> payload_m (message_p (envelope_of (Bare (example_message\<lparr>payload_m := None\<rparr>)))) = None
     \<and> fst (applyPayload std_env (Bare (example_message\<lparr>payload_m := None\<rparr>))
              (fresh (example_options (Bare (example_message\<lparr>payload_m := None\<rparr>))) True
                     (Bare (example_message\<lparr>payload_m := None\<rparr>)))) = Inr ()
     \<and> messagePayload (snd (applyPayload std_env (Bare (example_message\<lparr>payload_m := None\<rparr>))
              (fresh (example_options (Bare (example_message\<lparr>payload_m := None\<rparr>))) True
                     (Bare (example_message\<lparr>payload_m := None\<rparr>))))) = None)
   \<and> (payload_m (message_p (envelope_of (Bare example_message))) = Some ''{"a":1}''
     \<and> ''{"a":1}'' \<noteq> []
     \<and> JSON_parse std_env ''{"a":1}'' = Some (JObject [(''a'', JNumber 1 0)])
     \<and> fst (applyPayload std_env (Bare example_message) example_view) = Inr ()
     \<and> messagePayload (snd (applyPayload std_env (Bare example_message) example_view))
         = Some (JObject [(''a'', JNumber 1 0)]))
   \<and> (payload_m (message_p (envelope_of (Bare (example_message\<lparr>payload_m := Some ''not json''\<rparr>))))
         = Some ''not json''
     \<and> ''not json'' \<noteq> []
     \<and> JSON_parse std_env ''not json'' = None
     \<and> fst (applyPayload std_env (Bare (example_message\<lparr>payload_m := Some ''not json''\<rparr>))
              example_view) = Inl SyntaxError)\<close>
  using
    applyPayload_decodes_payload
      [where e = std_env and a = "Bare (example_message\<lparr>payload_m := None\<rparr>)"
         and c = "fresh (example_options (Bare (example_message\<lparr>payload_m := None\<rparr>))) True
                    (Bare (example_message\<lparr>payload_m := None\<rparr>))"]
    applyPayload_decodes_payload
      [where e = std_env and a = "Bare example_message" and c = example_view]
    applyPayload_decodes_payload
      [where e = std_env and a = "Bare (example_message\<lparr>payload_m := Some ''not json''\<rparr>)"
         and c = example_view]
  by (simp add: fresh_kMessagePayload envelope_of_def example_message_def std_env_def
      json_parse_object json_parse_not_json)

text \<open>
  C1 as stated fails: for the payload \<^verbatim>\<open>not json\<close>, which is not valid JSON, the
  constructor of the view throws.
\<close>

theorem invalid_payload_throws_counterexample:
  "json_parse ''not json'' = None
   \<and> new_MessageContext std_env
        (example_options (Bare (example_message\<lparr>payload_m := Some ''not json''\<rparr>)))
       = Inl SyntaxError"
  by (simp add: json_parse_not_json new_MessageContext_def example_options_def construct_def
      applyPayload_def envelope_of_def message_def Let_def std_env_def example_message_def)

subsection \<open>Location data on a stub\<close>

text \<open>
  C2, as the code has it. The accessor \<^verbatim>\<open>geo\<close> tests \<^verbatim>\<open>hasGeo\<close> before it tests
  \<^verbatim>\<open>$filled\<close>. On a view that is not filled it fails with the \<^verbatim>\<open>VKError\<close> of code
  \<^verbatim>\<open>PAYLOAD_IS_NOT_FULL\<close> when the fragment contains \<^verbatim>\<open>geo\<close>, and returns \<^verbatim>\<open>undefined\<close>
  when the fragment contains none.
\<close>

theorem geo_on_stub:
  "\<not> filled c \<Longrightarrow>
     (hasGeo c \<longrightarrow>
        geo c = Inl (VKError ''The message payload is not fully loaded'' ''PAYLOAD_IS_NOT_FULL''))
     \<and> (\<not> hasGeo c \<longrightarrow> geo c = Inr None)"
  by (simp add: geo_def)

theorem geo_on_stub_witness:
  "(\<not> filled stub_with_geo \<and> hasGeo stub_with_geo
     \<and> geo stub_with_geo
        = Inl (VKError ''The message payload is not fully loaded'' ''PAYLOAD_IS_NOT_FULL''))
   \<and> (\<not> filled stub_example \<and> \<not> hasGeo stub_example \<and> geo stub_example = Inr None)"
  using geo_on_stub [of stub_with_geo] geo_on_stub [of stub_example]
  by (simp add: stub_with_geo_def stub_example_def example_view_def example_message_def
      hasGeo_def message_def example_geo_def)

text \<open>
  C2 as stated fails: a stub whose fragment has no \<^verbatim>\<open>geo\<close> returns \<^verbatim>\<open>undefined\<close> from the
  accessor and does not fail.
\<close>

theorem geo_on_stub_counterexample:
  "\<not> filled stub_example \<and> geo stub_example = Inr None"
  by (simp add: geo_def hasGeo_def message_def stub_example_def example_view_def
      example_message_def)

subsection \<open>The view returned by \<^verbatim>\<open>send\<close>\<close>

text \<open>
  C3, what the code does at \<^verbatim>\<open>send(text)\<close>. When the remote call succeeds, \<^verbatim>\<open>send\<close> has
  issued one call \<^verbatim>\<open>messages.send\<close> with the peer id of the view, the generated
  \<^verbatim>\<open>random_id\<close> and the text under \<^verbatim>\<open>message\<close>; the view it was called on is unchanged; the
  new view has the returned id, \<^verbatim>\<open>out\<close> equal to 1, the peer and sender ids of the current
  fragment, the generated \<^verbatim>\<open>random_id\<close>, and is not filled. Its text, however, is
  \<^verbatim>\<open>undefined\<close> and not the text sent: the constructor is given \<^verbatim>\<open>text: options.text\<close>,
  while the text sent is \<^verbatim>\<open>options.message\<close>.
\<close>

theorem send_text_result:
  assumes "messages_send a [(''peer_id'', JNumber (peerId c) 0),
                            (''random_id'', JNumber randomId 0),
                            (''message'', JString s)] = Inr new_id"
  shows "calls (send e a randomId now (Text s) None c)
           = [MessagesSend [(''peer_id'', JNumber (peerId c) 0),
                            (''random_id'', JNumber randomId 0),
                            (''message'', JString s)]]
    \<and> after (send e a randomId now (Text s) None c) = c
    \<and> (\<exists>v. result (send e a randomId now (Text s) None c) = Inr v
          \<and> text_c v = None \<and> \<not> hasText v
          \<and> id_c v = new_id \<and> out (message v) = 1 \<and> isOutbox v
          \<and> peerId v = peerId c \<and> senderId v = senderId c
          \<and> random_id (message v) = randomId \<and> \<not> filled v)"
  using assms
  by (simp add: send_def send_options_text Let_def string_property_def new_MessageContext_def
      construct_def applyPayload_def envelope_of_def message_def fresh_def hasText_def
      truthy_def id_c_def isOutbox_def peerId_def senderId_def)

theorem send_text_result_witness:
  "messages_send example_api [(''peer_id'', JNumber (peerId example_view) 0),
                              (''random_id'', JNumber 7 0),
                              (''message'', JString ''hi'')] = Inr 77
   \<and> calls (send std_env example_api 7 1600000000123 (Text ''hi'') None example_view)
       = [MessagesSend [(''peer_id'', JNumber (peerId example_view) 0),
                        (''random_id'', JNumber 7 0),
                        (''message'', JString ''hi'')]]
   \<and> after (send std_env example_api 7 1600000000123 (Text ''hi'') None example_view)
       = example_view
   \<and> (\<exists>v. result (send std_env example_api 7 1600000000123 (Text ''hi'') None example_view)
              = Inr v
          \<and> text_c v = None \<and> \<not> hasText v
          \<and> id_c v = 77 \<and> out (message v) = 1 \<and> isOutbox v
          \<and> peerId v = peerId example_view \<and> senderId v = senderId example_view
          \<and> random_id (message v) = 7 \<and> \<not> filled v)"
proof -
  have h: "messages_send example_api [(''peer_id'', JNumber (peerId example_view) 0),
                                      (''random_id'', JNumber 7 0),
                                      (''message'', JString ''hi'')] = Inr 77"
    by (simp add: example_api_def)
  from send_text_result [OF h, of std_env 1600000000123] h show ?thesis
    by simp
qed

subsection \<open>Order of the aggregated attachments\<close>

text \<open>
  C4. \<^verbatim>\<open>getAllAttachments(kind)\<close> is the attachments of the view that have the kind,
  then those of the reply message (none when there is no reply message), then those of the
  forwarded messages, each in the order of its source; so the result is a subsequence of
  the three sources laid end to end.
\<close>

theorem getAllAttachments_order:
  "getAllAttachments kind c =
     filter (\<lambda>x. type_att x = kind) (attachments c)
     @ (case replyMessage c of
          None \<Rightarrow> []
        | Some r \<Rightarrow> filter (\<lambda>x. type_att x = kind) (attachments_r r))
     @ concat (map (\<lambda>f. filter (\<lambda>x. type_att x = kind) (attachments_f f)) (forwards c))
   \<and> subseq (getAllAttachments kind c)
        (attachments c
         @ (case replyMessage c of None \<Rightarrow> [] | Some r \<Rightarrow> attachments_r r)
         @ concat (map attachments_f (forwards c)))"
proof -
  have eq: "getAllAttachments kind c =
     filter (\<lambda>x. type_att x = kind) (attachments c)
     @ (case replyMessage c of
          None \<Rightarrow> []
        | Some r \<Rightarrow> filter (\<lambda>x. type_att x = kind) (attachments_r r))
     @ concat (map (\<lambda>f. filter (\<lambda>x. type_att x = kind) (attachments_f f)) (forwards c))"
    by (simp add: getAllAttachments_def getAttachments_def getAttachments_forwards_def
        split: option.splits)
  have own: "subseq (filter (\<lambda>x. type_att x = kind) (attachments c)) (attachments c)"
    by simp
  have rep: "subseq (case replyMessage c of
                       None \<Rightarrow> []
                     | Some r \<Rightarrow> filter (\<lambda>x. type_att x = kind) (attachments_r r))
                    (case replyMessage c of None \<Rightarrow> [] | Some r \<Rightarrow> attachments_r r)"
    by (simp split: option.splits)
  have fwd: "subseq (concat (map (\<lambda>f. filter (\<lambda>x. type_att x = kind) (attachments_f f))
                               (forwards c)))
                    (concat (map attachments_f (forwards c)))"
    by (rule subseq_concat_filter)
  from own rep fwd show ?thesis
    unfolding eq by (intro conjI refl list_emb_append_mono)
qed

theorem getAllAttachments_order_witness:
  "getAllAttachments ''doc'' example_forwards_view =
     [] @ [\<lparr>type_att = ''doc'', canBeAttached = False, raw = JObject [(''type'', JString ''doc'')]\<rparr>]
     @ [\<lparr>type_att = ''doc'', canBeAttached = False, raw = JObject [(''type'', JString ''doc'')]\<rparr>,
        \<lparr>type_att = ''doc'', canBeAttached = False, raw = JObject [(''type'', JString ''doc'')]\<rparr>]
   \<and> getAllAttachments ''photo'' example_forwards_view =
     [\<lparr>type_att = ''photo'', canBeAttached = False,
       raw = JObject [(''type'', JString ''photo''), (''photo'', JObject [])]\<rparr>]
     @ [\<lparr>type_att = ''photo'', canBeAttached = False,
         raw = JObject [(''type'', JString ''photo'')]\<rparr>]
     @ [\<lparr>type_att = ''photo'', canBeAttached = False,
         raw = JObject [(''type'', JString ''photo'')]\<rparr>,
        \<lparr>type_att = ''photo'', canBeAttached = False,
         raw = JObject [(''type'', JString ''photo'')]\<rparr>]"
  using getAllAttachments_order [of "''doc''" example_forwards_view]
    getAllAttachments_order [of "''photo''" example_forwards_view]
  by (simp add: attachments_def replyMessage_def forwards_def example_forwards_view_def
      example_view_def new_MessageReply_def new_MessageForward_def example_reply_def
      example_forward_def std_env_def transformAttachments_spec_def List.map_filter_def
      attachment_of_def)

subsection \<open>Default client capabilities\<close>

text \<open>
  C5. A payload without the key \<^verbatim>\<open>client_info\<close> is wrapped as the message of an envelope
  whose \<^verbatim>\<open>client_info\<close> is exactly \<^verbatim>\<open>{button_actions: ['text'], keyboard: true,
  inline_keyboard: false, carousel: false, lang_id: 0}\<close>; a payload with the key becomes the
  payload of the view as it is.
\<close>

theorem applyPayload_client_info:
  "payload (snd (applyPayload e (Bare m) c)) =
     \<lparr>message_p = m,
      client_info = \<lparr>button_actions = [''text''], keyboard = True, inline_keyboard = False,
                     carousel = False, lang_id = 0\<rparr>\<rparr>
   \<and> payload (snd (applyPayload e (Enveloped p) c)) = p"
  by (simp add: applyPayload_payload envelope_of_def default_client_info_def)

subsection \<open>Loading the full message\<close>

text \<open>
  C6, as the code has it. \<^verbatim>\<open>loadMessagePayload\<close> does nothing when the view is filled and
  \<^verbatim>\<open>force\<close> is not set. Otherwise it calls \<^verbatim>\<open>messages.getById\<close> when the id is not 0 and
  \<^verbatim>\<open>messages.getByConversationMessageId\<close>, with the peer id, when the id is 0. When the call
  returns at least one fragment and the payload string of the first, if any, parses, the
  first fragment becomes the message of the view, the attachments and the forwards are
  built again from it, the reply message is built again when the fragment carries a
  reply, and the view is filled.
\<close>

theorem loadMessagePayload_promotes:
  "(filled c \<and> \<not> force \<longrightarrow>
      loadMessagePayload e a force c = \<lparr>calls = [], result = Inr (), after = c\<rparr>)
   \<and> (\<not> (filled c \<and> \<not> force) \<and> id_c c \<noteq> 0 \<longrightarrow>
      calls (loadMessagePayload e a force c) = [MessagesGetById (id_c c)])
   \<and> (\<not> (filled c \<and> \<not> force) \<and> id_c c = 0 \<longrightarrow>
      calls (loadMessagePayload e a force c)
        = [MessagesGetByConversationMessageId (peerId c) (conversationMessageId c)])
   \<and> (\<forall>m rest.
        \<not> (filled c \<and> \<not> force)
        \<and> (if id_c c \<noteq> 0 then messages_getById a (id_c c)
            else messages_getByConversationMessageId a (peerId c) (conversationMessageId c))
           = Inr (m # rest)
        \<and> (\<forall>s. payload_m m = Some s \<and> s \<noteq> [] \<longrightarrow> JSON_parse e s \<noteq> None)
      \<longrightarrow> result (loadMessagePayload e a force c) = Inr ()
          \<and> message (after (loadMessagePayload e a force c)) = m
          \<and> attachments (after (loadMessagePayload e a force c))
              = transformAttachments e (attachments_m m)
          \<and> forwards (after (loadMessagePayload e a force c))
              = map (new_MessageForward e) (case fwd_messages m of Some fs \<Rightarrow> fs | None \<Rightarrow> [])
          \<and> (\<forall>r. reply_message m = Some r \<longrightarrow>
                replyMessage (after (loadMessagePayload e a force c))
                  = Some (new_MessageReply e r))
          \<and> filled (after (loadMessagePayload e a force c)))"
proof (intro conjI allI impI)
  assume "filled c \<and> \<not> force"
  then show "loadMessagePayload e a force c = \<lparr>calls = [], result = Inr (), after = c\<rparr>"
    by (simp add: loadMessagePayload_def)
next
  assume h: "\<not> (filled c \<and> \<not> force) \<and> id_c c \<noteq> 0"
  show "calls (loadMessagePayload e a force c) = [MessagesGetById (id_c c)]"
  proof (cases "messages_getById a (id_c c)")
    case (Inl err)
    with h show ?thesis by (simp add: loadMessagePayload_def)
  next
    case (Inr items)
    with h show ?thesis
      by (cases items; cases "applyPayload e (Bare (hd items)) c";
          cases "fst (applyPayload e (Bare (hd items)) c)")
         (simp_all add: loadMessagePayload_def)
  qed
next
  assume h: "\<not> (filled c \<and> \<not> force) \<and> id_c c = 0"
  show "calls (loadMessagePayload e a force c)
        = [MessagesGetByConversationMessageId (peerId c) (conversationMessageId c)]"
  proof (cases "messages_getByConversationMessageId a (peerId c) (conversationMessageId c)")
    case (Inl err)
    with h show ?thesis by (simp add: loadMessagePayload_def)
  next
    case (Inr items)
    with h show ?thesis
      by (cases items; cases "applyPayload e (Bare (hd items)) c";
          cases "fst (applyPayload e (Bare (hd items)) c)")
         (simp_all add: loadMessagePayload_def)
  qed
next
  fix m rest
  assume h: "\<not> (filled c \<and> \<not> force)
        \<and> (if id_c c \<noteq> 0 then messages_getById a (id_c c)
            else messages_getByConversationMessageId a (peerId c) (conversationMessageId c))
           = Inr (m # rest)
        \<and> (\<forall>s. payload_m m = Some s \<and> s \<noteq> [] \<longrightarrow> JSON_parse e s \<noteq> None)"
  then have ok: "fst (applyPayload e (Bare m) c) = Inr ()"
    by (intro applyPayload_succeeds) (simp add: envelope_of_def)
  note applied = loadMessagePayload_applied [OF conjunct1 [OF h] conjunct1 [OF conjunct2 [OF h]] ok]
  show "result (loadMessagePayload e a force c) = Inr ()"
    by (rule applied(1))
  show "message (after (loadMessagePayload e a force c)) = m"
    by (simp add: applied(2) message_def applyPayload_payload envelope_of_def)
  show "attachments (after (loadMessagePayload e a force c))
          = transformAttachments e (attachments_m m)"
    by (simp add: applied(2) attachments_def applyPayload_attachments envelope_of_def)
  show "forwards (after (loadMessagePayload e a force c))
          = map (new_MessageForward e) (case fwd_messages m of Some fs \<Rightarrow> fs | None \<Rightarrow> [])"
    by (simp add: applied(2) forwards_def applyPayload_forwards envelope_of_def)
  show "filled (after (loadMessagePayload e a force c))"
    by (simp add: applied(2))
  fix r
  assume "reply_message m = Some r"
  then show "replyMessage (after (loadMessagePayload e a force c)) = Some (new_MessageReply e r)"
    by (simp add: applied(2) replyMessage_def applyPayload_reply envelope_of_def)
qed

theorem loadMessagePayload_promotes_witness:
  \<open>(filled example_view \<and> \<not> False
     \<and> loadMessagePayload std_env example_api False example_view
          = \<lparr>calls = [], result = Inr (), after = example_view\<rparr>)
   \<and> (\<not> (filled stub_example \<and> \<not> False) \<and> id_c stub_example \<noteq> 0
     \<and> calls (loadMessagePayload std_env replied_api False stub_example) = [MessagesGetById 10])
   \<and> (\<not> (filled unnumbered_stub \<and> \<not> False) \<and> id_c unnumbered_stub = 0
     \<and> calls (loadMessagePayload std_env example_api False unnumbered_stub)
          = [MessagesGetByConversationMessageId 2000000001 3])
   \<and> (messages_getById replied_api (id_c stub_example) = Inr [replied_message]
     \<and> payload_m replied_message = Some ''{"a":1}''
     \<and> JSON_parse std_env ''{"a":1}'' \<noteq> None
     \<and> reply_message replied_message = Some example_reply
     \<and> result (loadMessagePayload std_env replied_api False stub_example) = Inr ()
     \<and> message (after (loadMessagePayload std_env replied_api False stub_example))
          = replied_message
     \<and> attachments (after (loadMessagePayload std_env replied_api False stub_example))
          = transformAttachments std_env (attachments_m replied_message)
     \<and> forwards (after (loadMessagePayload std_env replied_api False stub_example))
          = [new_MessageForward std_env example_forward]
     \<and> replyMessage (after (loadMessagePayload std_env replied_api False stub_example))
          = Some (new_MessageReply std_env example_reply)
     \<and> filled (after (loadMessagePayload std_env replied_api False stub_example)))\<close>
proof -
  have ids: "id_c stub_example = 10" "id_c unnumbered_stub = 0" "id_c example_view = 10"
    "peerId unnumbered_stub = 2000000001" "conversationMessageId unnumbered_stub = 3"
    by (simp_all add: id_c_def peerId_def conversationMessageId_def message_def
        stub_example_def unnumbered_stub_def example_view_def example_message_def)
  have st: "filled example_view" "\<not> filled stub_example" "\<not> filled unnumbered_stub"
    by (simp_all add: stub_example_def unnumbered_stub_def example_view_def)
  have fetched: "messages_getById replied_api 10 = Inr [replied_message]"
    by (simp add: replied_api_def)
  have pl: \<open>payload_m replied_message = Some ''{"a":1}''\<close>
    "reply_message replied_message = Some example_reply"
    "fwd_messages replied_message = Some [example_forward]"
    by (simp_all add: replied_message_def example_message_def)
  have parse: \<open>JSON_parse std_env ''{"a":1}'' \<noteq> None\<close>
    by (simp add: std_env_def json_parse_object)
  from loadMessagePayload_promotes [of example_view False std_env example_api]
    loadMessagePayload_promotes [of stub_example False std_env replied_api]
    loadMessagePayload_promotes [of unnumbered_stub False std_env example_api]
    ids st fetched pl parse
  show ?thesis
    by simp
qed

text \<open>
  C6 as stated fails: when the fetched fragment carries no reply, the reply message of the
  view is not built again; the view keeps the one it had, beside a fragment without reply.
\<close>

theorem loadMessagePayload_keeps_reply_counterexample:
  "result (loadMessagePayload std_env example_api True replied_view) = Inr ()
   \<and> reply_message (message (after (loadMessagePayload std_env example_api True replied_view)))
       = None
   \<and> replyMessage (after (loadMessagePayload std_env example_api True replied_view))
       = Some (new_MessageReply std_env example_reply)"
  by (simp add: loadMessagePayload_def Let_def id_c_def message_def replied_view_def
      example_view_def replied_message_def example_message_def example_api_def
      applyPayload_def envelope_of_def std_env_def json_parse_object replyMessage_def)

subsection \<open>The local flag after \<^verbatim>\<open>markAsImportant\<close>\<close>

text \<open>
  C7. After a successful \<^verbatim>\<open>markAsImportant(ids, {important})\<close> the result is the list of
  ids that the remote call returned. When the id of the view is in that list, the view is
  as before except that \<^verbatim>\<open>important\<close> of its message is \<^verbatim>\<open>Boolean(important)\<close>; when it is
  not, the view is unchanged.
\<close>

theorem markAsImportant_local_flag:
  assumes "messages_markAsImportant a ids imp = Inr messageIds"
  shows "calls (markAsImportant a (Some ids) (Some imp) c) = [MessagesMarkAsImportant ids imp]
    \<and> result (markAsImportant a (Some ids) (Some imp) c) = Inr messageIds
    \<and> (id_c c \<in> set messageIds \<longrightarrow>
         after (markAsImportant a (Some ids) (Some imp) c)
           = c\<lparr>payload := (payload c)\<lparr>message_p :=
                  (message_p (payload c))\<lparr>important := (imp \<noteq> 0)\<rparr>\<rparr>\<rparr>
         \<and> isImportant (after (markAsImportant a (Some ids) (Some imp) c)) = (imp \<noteq> 0))
    \<and> (id_c c \<notin> set messageIds \<longrightarrow> after (markAsImportant a (Some ids) (Some imp) c) = c)"
  using assms
  by (simp add: markAsImportant_def Let_def set_important_def message_def isImportant_def)

theorem markAsImportant_local_flag_witness:
  "messages_markAsImportant example_api [10, 12] 1 = Inr [10, 11]
   \<and> calls (markAsImportant example_api (Some [10, 12]) (Some 1) example_view)
       = [MessagesMarkAsImportant [10, 12] 1]
   \<and> result (markAsImportant example_api (Some [10, 12]) (Some 1) example_view) = Inr [10, 11]
   \<and> id_c example_view \<in> set [10, 11]
   \<and> isImportant (after (markAsImportant example_api (Some [10, 12]) (Some 1) example_view))
   \<and> \<not> isImportant example_view
   \<and> id_c (example_view\<lparr>payload := (payload example_view)\<lparr>message_p :=
            example_message\<lparr>id_m := 12\<rparr>\<rparr>\<rparr>) \<notin> set [10, 11]
   \<and> after (markAsImportant example_api (Some [10, 12]) (Some 1)
              (example_view\<lparr>payload := (payload example_view)\<lparr>message_p :=
                 example_message\<lparr>id_m := 12\<rparr>\<rparr>\<rparr>))
       = example_view\<lparr>payload := (payload example_view)\<lparr>message_p :=
            example_message\<lparr>id_m := 12\<rparr>\<rparr>\<rparr>"
proof -
  have h: "messages_markAsImportant example_api [10, 12] 1 = Inr [10, 11]"
    by (simp add: example_api_def)
  from markAsImportant_local_flag [OF h, of example_view]
    markAsImportant_local_flag [OF h, of "example_view\<lparr>payload := (payload example_view)\<lparr>message_p :=
            example_message\<lparr>id_m := 12\<rparr>\<rparr>\<rparr>"] h
  show ?thesis
    by (simp add: id_c_def message_def example_view_def example_message_def isImportant_def)
qed

subsection \<open>Operations on a chat outside a chat\<close>

text \<open>
  C8. On a view whose peer is not a chat, each of \<^verbatim>\<open>renameChat\<close>, \<^verbatim>\<open>newChatPhoto\<close>,
  \<^verbatim>\<open>deleteChatPhoto\<close>, \<^verbatim>\<open>inviteUser\<close>, \<^verbatim>\<open>kickUser\<close>, \<^verbatim>\<open>pinMessage\<close> and \<^verbatim>\<open>unpinMessage\<close>
  fails with the \<^verbatim>\<open>VKError\<close> of code \<^verbatim>\<open>IS_NOT_CHAT\<close>, issues no remote call and leaves
  the view as it was.
\<close>

theorem chat_only_operations:
  assumes "getPeerType e (peerId c) \<noteq> CHAT"
  shows "renameChat e a title c =
           \<lparr>calls = [], result = Inl (VKError ''This method is only available in chat''
                                              ''IS_NOT_CHAT''), after = c\<rparr>
    \<and> newChatPhoto e a src params c =
           \<lparr>calls = [], result = Inl (VKError ''This method is only available in chat''
                                              ''IS_NOT_CHAT''), after = c\<rparr>
    \<and> deleteChatPhoto e a c =
           \<lparr>calls = [], result = Inl (VKError ''This method is only available in chat''
                                              ''IS_NOT_CHAT''), after = c\<rparr>
    \<and> inviteUser e a user c =
           \<lparr>calls = [], result = Inl (VKError ''This method is only available in chat''
                                              ''IS_NOT_CHAT''), after = c\<rparr>
    \<and> kickUser e a user c =
           \<lparr>calls = [], result = Inl (VKError ''This method is only available in chat''
                                              ''IS_NOT_CHAT''), after = c\<rparr>
    \<and> pinMessage e a c =
           \<lparr>calls = [], result = Inl (VKError ''This method is only available in chat''
                                              ''IS_NOT_CHAT''), after = c\<rparr>
    \<and> unpinMessage e a c =
           \<lparr>calls = [], result = Inl (VKError ''This method is only available in chat''
                                              ''IS_NOT_CHAT''), after = c\<rparr>"
proof -
  from assms have "assertIsChat e c
      = Inl (VKError ''This method is only available in chat'' ''IS_NOT_CHAT'')"
    by (simp add: assertIsChat_def isChat_def peerType_def peerId_def)
  then show ?thesis
    by (simp add: renameChat_def newChatPhoto_def deleteChatPhoto_def inviteUser_def
        kickUser_def pinMessage_def unpinMessage_def Let_def)
qed

theorem chat_only_operations_witness:
  "getPeerType std_env (peerId direct_view) \<noteq> CHAT
   \<and> renameChat std_env example_api ''title'' direct_view =
           \<lparr>calls = [], result = Inl (VKError ''This method is only available in chat''
                                              ''IS_NOT_CHAT''), after = direct_view\<rparr>
   \<and> newChatPhoto std_env example_api JNull [] direct_view =
           \<lparr>calls = [], result = Inl (VKError ''This method is only available in chat''
                                              ''IS_NOT_CHAT''), after = direct_view\<rparr>
   \<and> deleteChatPhoto std_env example_api direct_view =
           \<lparr>calls = [], result = Inl (VKError ''This method is only available in chat''
                                              ''IS_NOT_CHAT''), after = direct_view\<rparr>
   \<and> inviteUser std_env example_api (Some 5) direct_view =
           \<lparr>calls = [], result = Inl (VKError ''This method is only available in chat''
                                              ''IS_NOT_CHAT''), after = direct_view\<rparr>
   \<and> kickUser std_env example_api (Some 5) direct_view =
           \<lparr>calls = [], result = Inl (VKError ''This method is only available in chat''
                                              ''IS_NOT_CHAT''), after = direct_view\<rparr>
   \<and> pinMessage std_env example_api direct_view =
           \<lparr>calls = [], result = Inl (VKError ''This method is only available in chat''
                                              ''IS_NOT_CHAT''), after = direct_view\<rparr>
   \<and> unpinMessage std_env example_api direct_view =
           \<lparr>calls = [], result = Inl (VKError ''This method is only available in chat''
                                              ''IS_NOT_CHAT''), after = direct_view\<rparr>"
proof -
  have h: "getPeerType std_env (peerId direct_view) \<noteq> CHAT"
    by (simp add: std_env_def getPeerType_spec_def peerId_def message_def direct_view_def
        example_message_def)
  from chat_only_operations [OF h, of example_api "''title''" JNull "[]" "Some 5"] h
  show ?thesis by simp
qed

subsection \<open>Order of the serialized properties\<close>

text \<open>
  C9. The serialized view lists \<^verbatim>\<open>id\<close>, \<^verbatim>\<open>conversationMessageId\<close>, \<^verbatim>\<open>peerId\<close>,
  \<^verbatim>\<open>peerType\<close>, \<^verbatim>\<open>senderId\<close>, \<^verbatim>\<open>senderType\<close>, \<^verbatim>\<open>createdAt\<close>, \<^verbatim>\<open>updatedAt\<close>, \<^verbatim>\<open>text\<close>;
  then the four event properties when \<^verbatim>\<open>isEvent\<close> holds; then \<^verbatim>\<open>replyMessage\<close> when there
  is a reply message; then \<^verbatim>\<open>forwards\<close> and \<^verbatim>\<open>attachments\<close>; then \<^verbatim>\<open>messagePayload\<close> when
  \<^verbatim>\<open>hasMessagePayload\<close> holds; then \<^verbatim>\<open>isOutbox\<close>; then \<^verbatim>\<open>referralValue\<close> and
  \<^verbatim>\<open>referralSource\<close> when the referral value is a non-empty string; then \<^verbatim>\<open>$match\<close> when
  it is set.
\<close>

theorem kSerializeData_order:
  "kSerializeData_names c =
     [''id'', ''conversationMessageId'', ''peerId'', ''peerType'', ''senderId'',
      ''senderType'', ''createdAt'', ''updatedAt'', ''text'']
     @ (if isEvent c then [''eventType'', ''eventMemberId'', ''eventText'', ''eventEmail'']
        else [])
     @ (if hasReplyMessage c then [''replyMessage''] else [])
     @ [''forwards'', ''attachments'']
     @ (if hasMessagePayload c then [''messagePayload''] else [])
     @ [''isOutbox'']
     @ (if truthy (referralValue c) then [''referralValue'', ''referralSource''] else [])
     @ (if match c \<noteq> None then [''$match''] else [])
   \<and> map fst (kSerializeData e c) = kSerializeData_names c"
  by (simp add: kSerializeData_def pickProperties_def kSerializeData_names_def Let_def comp_def)

theorem kSerializeData_order_witness:
  "map fst (kSerializeData std_env example_view) =
     [''id'', ''conversationMessageId'', ''peerId'', ''peerType'', ''senderId'',
      ''senderType'', ''createdAt'', ''updatedAt'', ''text'', ''forwards'', ''attachments'',
      ''messagePayload'', ''isOutbox'']
   \<and> map fst (kSerializeData std_env event_view) =
     [''id'', ''conversationMessageId'', ''peerId'', ''peerType'', ''senderId'',
      ''senderType'', ''createdAt'', ''updatedAt'', ''text'', ''eventType'',
      ''eventMemberId'', ''eventText'', ''eventEmail'', ''replyMessage'', ''forwards'',
      ''attachments'', ''messagePayload'', ''isOutbox'', ''referralValue'',
      ''referralSource'', ''$match'']"
  using kSerializeData_order [where e = std_env and c = example_view]
    kSerializeData_order [where e = std_env and c = event_view]
  by (simp add: isEvent_def eventType_def hasReplyMessage_def replyMessage_def
      hasMessagePayload_def truthy_def referralValue_def message_def event_view_def
      example_forwards_view_def example_view_def example_message_def)

subsection \<open>The text of a view\<close>

text \<open>
  C10. When the property \<^verbatim>\<open>text\<close> of the applied fragment is absent or the empty string,
  the field \<^verbatim>\<open>text\<close> of the view is \<^verbatim>\<open>undefined\<close> and \<^verbatim>\<open>hasText\<close> is false; when it is a
  non-empty string, the field holds that string passed through \<^verbatim>\<open>unescapeHTML\<close>.
\<close>

theorem applyPayload_text_unescaped:
  "(text_m (message_p (envelope_of a)) = None \<or> text_m (message_p (envelope_of a)) = Some []
      \<longrightarrow> text_c (snd (applyPayload e a c)) = None \<and> \<not> hasText (snd (applyPayload e a c)))
   \<and> (\<forall>t. text_m (message_p (envelope_of a)) = Some t \<and> t \<noteq> []
      \<longrightarrow> text_c (snd (applyPayload e a c)) = Some (unescapeHTML e t))"
  by (auto simp: applyPayload_text hasText_def truthy_def)


theorem applyPayload_text_unescaped_witness:
  "(text_m (message_p (envelope_of (Bare (example_message\<lparr>text_m := Some []\<rparr>)))) = Some []
    \<and> text_c (snd (applyPayload std_env (Bare (example_message\<lparr>text_m := Some []\<rparr>))
                      example_view)) = None
    \<and> \<not> hasText (snd (applyPayload std_env (Bare (example_message\<lparr>text_m := Some []\<rparr>))
                        example_view)))
   \<and> (text_m (message_p (envelope_of (Bare example_message))) = Some ''a &lt; b''
    \<and> ''a &lt; b'' \<noteq> []
    \<and> text_c (snd (applyPayload std_env (Bare example_message) example_view)) = Some ''a < b'')"
  using
    applyPayload_text_unescaped
      [where e = std_env and a = "Bare (example_message\<lparr>text_m := Some []\<rparr>)"
         and c = example_view]
    applyPayload_text_unescaped
      [where e = std_env and a = "Bare example_message" and c = example_view]
  by (simp add: envelope_of_def example_message_def std_env_def unescapeHTML_spec_example)

end
